theory Spec2Isabelle
  imports Complex_Main
begin

section \<open>Strings\<close>

text \<open>
  A Python \<open>str\<close> is a sequence of Unicode code points. It is modelled as a list of
  natural numbers, one per code point, so that the non-ASCII characters of the templates
  (the dashes U+2013 and U+2014, the apostrophe U+2019) are single elements, as they are
  for Python. \<open>str\<close> turns an ASCII literal into such a list.
\<close>

type_synonym pystr = "nat list"

definition str :: "string \<Rightarrow> pystr" where
  "str s = map of_char s"

text \<open>
  \<open>str.isspace\<close> for one code point: Python's whitespace code points
  (bidirectional class WS, B or S, or general category Zs).
\<close>

definition isspace :: "nat \<Rightarrow> bool" where
  "isspace c =
     ((9 \<le> c \<and> c \<le> 13) \<or> (28 \<le> c \<and> c \<le> 32) \<or> c = 133 \<or> c = 160 \<or> c = 5760
      \<or> (8192 \<le> c \<and> c \<le> 8202) \<or> c = 8232 \<or> c = 8233 \<or> c = 8239 \<or> c = 8287
      \<or> c = 12288)"

text \<open>\<open>s.strip()\<close>: leading and trailing whitespace removed.\<close>

definition strip :: "pystr \<Rightarrow> pystr" where
  "strip s = rev (dropWhile isspace (rev (dropWhile isspace s)))"

text \<open>
  \<open>s.split(sep)\<close> for a separator of one code point: the pieces between the
  separators, empty pieces kept; the result is never the empty list. \<open>s.split(',')\<close>
  splits at the comma (code point 44).
\<close>

fun split_on :: "nat \<Rightarrow> pystr \<Rightarrow> pystr list" where
  "split_on sep [] = [[]]"
| "split_on sep (c # cs) =
     (if c = sep then [] # split_on sep cs
      else (case split_on sep cs of
              [] \<Rightarrow> [[c]]
            | piece # pieces \<Rightarrow> (c # piece) # pieces))"

definition split_comma :: "pystr \<Rightarrow> pystr list" where
  "split_comma s = split_on 44 s"

text \<open>The decimal text of an integer, as an f-string formats it.\<close>

fun digits :: "nat \<Rightarrow> pystr" where
  "digits n = (if n < 10 then [48 + n] else digits (n div 10) @ [48 + n mod 10])"

definition str_int :: "int \<Rightarrow> pystr" where
  "str_int i = (if i < 0 then 45 # digits (nat (- i)) else digits (nat i))"

text \<open>
  \<open>os.path.join\<close> as \<open>posixpath\<close> defines it: a component that starts with the
  separator (code point 47) replaces what came before; otherwise it is appended, after a
  separator unless the path so far is empty or already ends with one.
\<close>

definition join_step :: "pystr \<Rightarrow> pystr \<Rightarrow> pystr" where
  "join_step path b =
     (if b \<noteq> [] \<and> hd b = 47 then b
      else if path = [] \<or> last path = 47 then path @ b
      else path @ [47] @ b)"

definition os_path_join :: "pystr \<Rightarrow> pystr list \<Rightarrow> pystr" where
  "os_path_join a p = foldl join_step a p"

text \<open>
  Which file a path names. The file system reads a path component by component: empty
  components and \<open>.\<close> (code point 46) are skipped, \<open>..\<close> steps back to the parent
  directory (at the root it stays there; at the start of a relative path it is kept).
  \<open>resolve\<close> gives the path in this normal form, so two paths name the same file
  exactly when they resolve to the same string. All relative paths are relative to the one
  working directory of the program; symbolic links are not modelled.
\<close>

fun walk :: "bool \<Rightarrow> pystr list \<Rightarrow> pystr list \<Rightarrow> pystr list" where
  "walk ab up [] = rev up"
| "walk ab up (c # cs) =
     (if c = [] \<or> c = [46] then walk ab up cs
      else if c = [46, 46] then
        (case up of
           [] \<Rightarrow> walk ab (if ab then [] else [c]) cs
         | d # ds \<Rightarrow> if d = [46, 46] then walk ab (c # up) cs else walk ab ds cs)
      else walk ab (c # up) cs)"

fun join_sep :: "pystr list \<Rightarrow> pystr" where
  "join_sep [] = []"
| "join_sep [c] = c"
| "join_sep (c # d # cs) = c @ [47] @ join_sep (d # cs)"

definition resolve :: "pystr \<Rightarrow> pystr" where
  "resolve path =
     (let ab = (path \<noteq> [] \<and> hd path = 47)
      in (if ab then [47] else []) @ join_sep (walk ab [] (split_on 47 path)))"

section \<open>Configuration\<close>

definition VOICE_ID :: pystr where
  "VOICE_ID = str ''9BWtsMINqrJLrRacOk9x''"

definition SPOKESPERSON_IMAGE :: pystr where
  "SPOKESPERSON_IMAGE = str ''spokesperson.jpg''"

definition WAV2LIP_PATH :: pystr where
  "WAV2LIP_PATH = str ''Wav2Lip''"

definition OUTPUT_DIR :: pystr where
  "OUTPUT_DIR = str ''output''"

section \<open>Media clips\<close>

text \<open>
  The clips of the video library are kept as the terms the program builds: a clip read
  from a file, a text clip with its styling, a concatenation, a clip with its audio
  replaced. What the library renders from them is outside the program; the program
  decides which clips are built, in which order, with which parameters.
\<close>

datatype audio_clip = AudioFileClip pystr

record video_clip =
  filename :: pystr
  clip_size :: "nat \<times> nat"
  audio :: "audio_clip option"

record text_clip =
  clip_text :: pystr
  fontsize :: nat
  font :: pystr
  color :: pystr
  txt_size :: "nat \<times> nat"
  txt_method :: pystr
  align :: pystr
  duration :: "nat option"
  pos :: "pystr option"

text \<open>
  \<open>TextClip(...)\<close> has no duration and the default position until
  \<open>set_duration\<close> and \<open>set_position\<close> give them.
\<close>

definition TextClip ::
  "pystr \<Rightarrow> nat \<Rightarrow> pystr \<Rightarrow> pystr \<Rightarrow> nat \<times> nat \<Rightarrow> pystr \<Rightarrow> pystr \<Rightarrow> text_clip" where
  "TextClip t fs f c sz m a =
     \<lparr>clip_text = t, fontsize = fs, font = f, color = c, txt_size = sz, txt_method = m,
      align = a, duration = None, pos = None\<rparr>"

definition set_duration :: "nat \<Rightarrow> text_clip \<Rightarrow> text_clip" where
  "set_duration d c = c\<lparr>duration := Some d\<rparr>"

definition set_position :: "pystr \<Rightarrow> text_clip \<Rightarrow> text_clip" where
  "set_position p c = c\<lparr>pos := Some p\<rparr>"

datatype clip =
    Video video_clip
  | Text text_clip
  | Concatenate "clip list" pystr
  | SetAudio clip "audio_clip option"

definition concatenate_videoclips :: "clip list \<Rightarrow> pystr \<Rightarrow> clip" where
  "concatenate_videoclips clips m = Concatenate clips m"

definition set_audio :: "audio_clip option \<Rightarrow> clip \<Rightarrow> clip" where
  "set_audio a c = SetAudio c a"

text \<open>
  The visual timeline of a clip: its segments in playing order. A concatenation plays its
  parts one after the other; replacing the audio leaves the picture as it is.
\<close>

datatype segment = TalkingHead video_clip | Slide text_clip

fun timeline :: "clip \<Rightarrow> segment list" where
  "timeline (Video v) = [TalkingHead v]"
| "timeline (Text t) = [Slide t]"
| "timeline (Concatenate cs m) = concat (map timeline cs)"
| "timeline (SetAudio c a) = timeline c"

text \<open>
  The audio tracks a clip carries: a file clip has its file's track (if any), a text clip
  has none, a concatenation has those of its parts, and \<open>set_audio\<close> replaces whatever
  was there.
\<close>

fun audio_tracks :: "clip \<Rightarrow> audio_clip list" where
  "audio_tracks (Video v) = (case audio v of None \<Rightarrow> [] | Some a \<Rightarrow> [a])"
| "audio_tracks (Text t) = []"
| "audio_tracks (Concatenate cs m) = concat (map audio_tracks cs)"
| "audio_tracks (SetAudio c a) = (case a of None \<Rightarrow> [] | Some t \<Rightarrow> [t])"

section \<open>The world outside the program\<close>

text \<open>
  The program talks to a text-to-speech service over HTTP, to the file system, to an
  external rendering process and to the video library's decoder and encoder. The file
  system is a store of contents, one per file, keyed by the resolved path of the file;
  \<open>files\<close> looks a path up and \<open>write_file\<close> replaces the content of the file a
  path names. A content is a sequence of bytes, or the video the encoder was asked to write
  (the clip and the frame rate). The log keeps every
  external call in the order the program made it, and every entry into
  \<open>generate_ad\<close> with its arguments. Console output is not modelled. The headers of the
  HTTP request are the same in every call (a content type and the configured key) and are
  not part of the log.
\<close>

record voice_settings =
  stability :: rat
  similarity_boost :: rat

record payload =
  payload_text :: pystr
  payload_voice_settings :: voice_settings

record response =
  status_code :: int
  content :: "nat list"
  resp_text :: pystr

datatype file_content = Bytes "nat list" | Encoded clip nat

datatype event =
    Call_generate_ad pystr "pystr list" pystr
  | HttpPost pystr payload
  | FileWrite pystr "nat list"
  | PathExists pystr
  | SubprocessRun "pystr list"
  | VideoOpen pystr
  | VideoWrite pystr clip nat

record world =
  store :: "pystr \<rightharpoonup> file_content"
  log :: "event list"

definition files :: "world \<Rightarrow> pystr \<rightharpoonup> file_content" where
  "files w path = store w (resolve path)"

definition write_file :: "pystr \<Rightarrow> file_content \<Rightarrow> world \<Rightarrow> world" where
  "write_file path c w = w\<lparr>store := (store w)(resolve path \<mapsto> c)\<rparr>"

text \<open>
  What the outside answers. Each answer may depend on the whole history (the world at the
  time of the call): the service's response to a request, whether a file can be opened for
  writing (it cannot when its directory is missing or not writable), the exit status of
  the external process together with the store it leaves behind, and what the decoder
  finds in a video file (its frame size and whether it has an audio stream; \<open>None\<close>
  when the file cannot be read). Directories are not part of the store: whether a
  directory is there shows in the answer of \<open>open_wb\<close> only, and the creation of the
  output directory when the module is loaded has no counterpart here. A failure of the
  network inside \<open>requests.post\<close> and a failure of the encoder are not modelled.
\<close>

record env =
  requests_post :: "world \<Rightarrow> pystr \<Rightarrow> payload \<Rightarrow> response"
  open_wb :: "world \<Rightarrow> pystr \<Rightarrow> bool"
  subprocess_run :: "world \<Rightarrow> pystr list \<Rightarrow> int \<times> (pystr \<rightharpoonup> file_content)"
  video_probe :: "world \<Rightarrow> pystr \<Rightarrow> ((nat \<times> nat) \<times> bool) option"

datatype error =
    RuntimeError pystr
  | FileNotFoundError pystr
  | CalledProcessError int "pystr list"
  | OSError pystr
  | EOFError

definition emit :: "event \<Rightarrow> world \<Rightarrow> world" where
  "emit e w = w\<lparr>log := log w @ [e]\<rparr>"

text \<open>The events a computation added to the log.\<close>

definition new_events :: "world \<Rightarrow> world \<Rightarrow> event list" where
  "new_events w w' = drop (length (log w)) (log w')"

section \<open>Utility functions\<close>

definition tts_url :: pystr where
  "tts_url = str ''https://api.elevenlabs.io/v1/text-to-speech/'' @ VOICE_ID"

definition tts_payload :: "pystr \<Rightarrow> payload" where
  "tts_payload t =
     \<lparr>payload_text = t,
      payload_voice_settings = \<lparr>stability = 7 / 10, similarity_boost = 3 / 4\<rparr>\<rparr>"

definition generate_audio :: "env \<Rightarrow> pystr \<Rightarrow> pystr \<Rightarrow> world \<Rightarrow> (error + pystr) \<times> world" where
  "generate_audio ev t output_path w =
     (let resp = requests_post ev w tts_url (tts_payload t);
          w1 = emit (HttpPost tts_url (tts_payload t)) w
      in if status_code resp = 200 then
           (if open_wb ev w1 output_path then
              (Inr output_path,
               emit (FileWrite output_path (content resp))
                 (write_file output_path (Bytes (content resp)) w1))
            else (Inl (OSError output_path), w1))
         else
           (Inl (RuntimeError
                  (str ''ElevenLabs TTS failed: '' @ str_int (status_code resp) @ str '' ''
                   @ resp_text resp)),
            w1))"

text \<open>
  In \<open>generate_audio\<close>, \<open>open(output_path, "wb")\<close> raises an \<open>OSError\<close>
  (\<open>FileNotFoundError\<close> for a missing directory) when the file cannot be opened;
  nothing is written then.

  \<open>os.path.exists\<close> is a look-up in the file system. \<open>subprocess.run\<close> with
  \<open>check=True\<close> raises \<open>CalledProcessError\<close> on a non-zero exit status; whatever
  the process did to the file system by then stays.
\<close>

definition checkpoint :: pystr where
  "checkpoint = os_path_join WAV2LIP_PATH [str ''checkpoints'', str ''wav2lip_gan.pth'']"

definition wav2lip_cmd :: "pystr \<Rightarrow> pystr \<Rightarrow> pystr \<Rightarrow> pystr list" where
  "wav2lip_cmd audio_path image_path output_path =
     [str ''python'',
      os_path_join WAV2LIP_PATH [str ''inference.py''],
      str ''--checkpoint_path'', checkpoint,
      str ''--face'', image_path,
      str ''--audio'', audio_path,
      str ''--outfile'', output_path]"

definition generate_lip_synced_video ::
  "env \<Rightarrow> pystr \<Rightarrow> pystr \<Rightarrow> pystr \<Rightarrow> world \<Rightarrow> (error + pystr) \<times> world" where
  "generate_lip_synced_video ev audio_path image_path output_path w =
     (let w1 = emit (PathExists checkpoint) w
      in if files w checkpoint = None then
           (Inl (FileNotFoundError
                  (str ''Place wav2lip_gan.pth into Wav2Lip/checkpoints/ first.'')),
            w1)
         else
           (let cmd = wav2lip_cmd audio_path image_path output_path;
                (returncode, fs) = subprocess_run ev w1 cmd;
                w2 = emit (SubprocessRun cmd) (w1\<lparr>store := fs\<rparr>)
            in if returncode \<noteq> 0 then (Inl (CalledProcessError returncode cmd), w2)
               else (Inr output_path, w2)))"

text \<open>
  \<open>VideoFileClip(path)\<close>: the decoder reads the file's frame size; the clip's audio is
  the file's own audio stream when it has one. A file that cannot be read raises.
\<close>

definition VideoFileClip :: "env \<Rightarrow> pystr \<Rightarrow> world \<Rightarrow> (error + video_clip) \<times> world" where
  "VideoFileClip ev path w =
     (let w1 = emit (VideoOpen path) w
      in case video_probe ev w path of
           None \<Rightarrow> (Inl (OSError path), w1)
         | Some (sz, has_audio) \<Rightarrow>
             (Inr \<lparr>filename = path, clip_size = sz,
                   audio = (if has_audio then Some (AudioFileClip path) else None)\<rparr>,
              w1))"

text \<open>\<open>clip.write_videofile(path, fps)\<close>: the file at the path is the encoded clip.\<close>

definition write_videofile :: "clip \<Rightarrow> pystr \<Rightarrow> nat \<Rightarrow> world \<Rightarrow> world" where
  "write_videofile c path fps w =
     emit (VideoWrite path c fps) (write_file path (Encoded c fps) w)"

text \<open>
  The clips \<open>create_benefit_slides\<close> builds, under the names of its local variables:
  one \<open>txt_clip\<close> per benefit text, the \<open>cta_clip\<close>, the list \<open>slide_clips\<close>,
  \<open>slides_concat\<close> and the clip \<open>final\<close> that is written.
\<close>

definition txt_clip :: "video_clip \<Rightarrow> pystr \<Rightarrow> text_clip" where
  "txt_clip vc t =
     set_position (str ''center'')
       (set_duration 3
         (TextClip t 48 (str ''Arial-Bold'') (str ''white'') (clip_size vc)
            (str ''caption'') (str ''center'')))"

definition cta_text :: "pystr \<Rightarrow> pystr" where
  "cta_text phone_number = str ''Call Now: '' @ phone_number"

definition cta_clip :: "video_clip \<Rightarrow> pystr \<Rightarrow> text_clip" where
  "cta_clip vc phone_number =
     set_position (str ''center'')
       (set_duration 4
         (TextClip (cta_text phone_number) 60 (str ''Arial-Bold'') (str ''yellow'')
            (clip_size vc) (str ''caption'') (str ''center'')))"

definition slide_clips :: "video_clip \<Rightarrow> pystr list \<Rightarrow> pystr \<Rightarrow> clip list" where
  "slide_clips vc benefit_texts phone_number =
     map (\<lambda>t. Text (txt_clip vc t)) benefit_texts @ [Text (cta_clip vc phone_number)]"

definition slides_concat :: "video_clip \<Rightarrow> pystr list \<Rightarrow> pystr \<Rightarrow> clip" where
  "slides_concat vc benefit_texts phone_number =
     concatenate_videoclips (slide_clips vc benefit_texts phone_number) (str ''compose'')"

definition final :: "video_clip \<Rightarrow> pystr list \<Rightarrow> pystr \<Rightarrow> clip" where
  "final vc benefit_texts phone_number =
     concatenate_videoclips
       [Video vc, set_audio (audio vc) (slides_concat vc benefit_texts phone_number)]
       (str ''compose'')"

definition create_benefit_slides ::
  "video_clip \<Rightarrow> pystr list \<Rightarrow> pystr \<Rightarrow> pystr \<Rightarrow> world \<Rightarrow> pystr \<times> world" where
  "create_benefit_slides vc benefit_texts phone_number output_path w =
     (output_path, write_videofile (final vc benefit_texts phone_number) output_path 24 w)"

section \<open>Pre-set templates and benefits\<close>

definition ACA_TEMPLATE :: pystr where
  "ACA_TEMPLATE =
     str (''Hello! I'' @ [CHR 0x27] @ ''m excited to share that you may qualify for a health insurance plan with $0 monthly premiums, '')
     @ str ''thanks to new government subsidies under the Affordable Care Act. These plans can include dental, vision, ''
     @ str ''and prescription coverage '' @ [8212] @ str '' all at no cost if you qualify. The enrollment is fast and easy ''
     @ [8212] @ str '' it takes just 5 minutes. ''
     @ str ''Call us now at (561) 576-0801 to check your eligibility and get covered today!''"

definition FE_TEMPLATE :: pystr where
  "FE_TEMPLATE =
     str ''Hi there! Looking for affordable final expense coverage? We offer guaranteed-issue plans with no medical exams, ''
     @ str ''and competitive rates starting at just $20 a month. Your loved ones get peace of mind, and you get burial, funeral, ''
     @ str ''and final expenses covered. Call (561) 576-0801 now to enroll in minutes, and secure your family''
     @ [8217] @ str ''s future today!''"

definition ACA_BENEFITS :: "pystr list" where
  "ACA_BENEFITS =
     [str ''$0 Health Plans '' @ [8211] @ str '' ACA Subsidies'',
      str ''Dental, Vision & Prescriptions Included'',
      str ''Fast 5-Minute Enrollment'']"

definition FE_BENEFITS :: "pystr list" where
  "FE_BENEFITS =
     [str ''Guaranteed Issue '' @ [8211] @ str '' No Exam Required'',
      str ''Rates Start at $20/Month'',
      str ''Covers Burial & Funeral Costs'']"

section \<open>The pipeline and the menu\<close>

definition audio_path :: "pystr \<Rightarrow> pystr" where
  "audio_path output_prefix = os_path_join OUTPUT_DIR [output_prefix @ str ''_audio.wav'']"

definition lip_video_path :: "pystr \<Rightarrow> pystr" where
  "lip_video_path output_prefix = os_path_join OUTPUT_DIR [output_prefix @ str ''_lip.mp4'']"

definition final_output :: "pystr \<Rightarrow> pystr" where
  "final_output output_prefix = os_path_join OUTPUT_DIR [output_prefix @ str ''_final.mp4'']"

definition generate_ad ::
  "env \<Rightarrow> pystr \<Rightarrow> pystr list \<Rightarrow> pystr \<Rightarrow> world \<Rightarrow> (error + unit) \<times> world" where
  "generate_ad ev template_text benefit_list output_prefix w =
     (case generate_audio ev template_text (audio_path output_prefix)
             (emit (Call_generate_ad template_text benefit_list output_prefix) w) of
        (Inl e, w1) \<Rightarrow> (Inl e, w1)
      | (Inr _, w1) \<Rightarrow>
          (case generate_lip_synced_video ev (audio_path output_prefix) SPOKESPERSON_IMAGE
                  (lip_video_path output_prefix) w1 of
             (Inl e, w2) \<Rightarrow> (Inl e, w2)
           | (Inr _, w2) \<Rightarrow>
               (case VideoFileClip ev (lip_video_path output_prefix) w2 of
                  (Inl e, w3) \<Rightarrow> (Inl e, w3)
                | (Inr lip_clip, w3) \<Rightarrow>
                    (case create_benefit_slides lip_clip benefit_list (str ''(561) 576-0801'')
                            (final_output output_prefix) w3 of
                       (_, w4) \<Rightarrow> (Inr (), w4)))))"

text \<open>
  The menu loop reads its input line by line; the lines the operator will type are the
  list \<open>main\<close> takes. \<open>input()\<close> on an exhausted input raises \<open>EOFError\<close>. An
  exception of \<open>generate_ad\<close> is not caught, so it ends the loop.
\<close>

definition DEFAULT_BENEFITS :: "pystr list" where
  "DEFAULT_BENEFITS = [str ''Affordable Coverage Available'', str ''Call Now: (561) 576-0801'']"

definition custom_benefit_list :: "pystr \<Rightarrow> pystr list" where
  "custom_benefit_list line =
     (let bullets = split_comma line;
          benefit_list = map strip (filter (\<lambda>b. strip b \<noteq> []) bullets)
      in if benefit_list = [] then DEFAULT_BENEFITS else benefit_list)"

fun main :: "env \<Rightarrow> pystr list \<Rightarrow> world \<Rightarrow> (error + unit) \<times> world" where
  "main ev [] w = (Inl EOFError, w)"
| "main ev (l # ls) w =
     (let choice = strip l
      in if choice = str ''1'' then
           (case generate_ad ev ACA_TEMPLATE ACA_BENEFITS (str ''aca_ad'') w of
              (Inl e, w') \<Rightarrow> (Inl e, w')
            | (Inr _, w') \<Rightarrow> main ev ls w')
         else if choice = str ''2'' then
           (case generate_ad ev FE_TEMPLATE FE_BENEFITS (str ''fe_ad'') w of
              (Inl e, w') \<Rightarrow> (Inl e, w')
            | (Inr _, w') \<Rightarrow> main ev ls w')
         else if choice = str ''3'' then
           (case ls of
              [] \<Rightarrow> (Inl EOFError, w)
            | [custom] \<Rightarrow> (Inl EOFError, w)
            | custom # bullets # rest \<Rightarrow>
                (case generate_ad ev (strip custom) (custom_benefit_list bullets)
                        (str ''custom_ad'') w of
                   (Inl e, w') \<Rightarrow> (Inl e, w')
                 | (Inr _, w') \<Rightarrow> main ev rest w'))
         else if choice = str ''4'' then (Inr (), w)
         else main ev ls w)"

section \<open>Notions used in the statements\<close>

text \<open>The text slides among the segments of a timeline, in order.\<close>

definition slides_of :: "segment list \<Rightarrow> text_clip list" where
  "slides_of segs = concat (map (\<lambda>s. case s of Slide t \<Rightarrow> [t] | TalkingHead v \<Rightarrow> []) segs)"

text \<open>The text of the slide that closes a clip's timeline, if the timeline ends in a slide.\<close>

definition closing_slide_text :: "clip \<Rightarrow> pystr option" where
  "closing_slide_text c =
     (case rev (timeline c) of
        Slide t # _ \<Rightarrow> Some (clip_text t)
      | _ \<Rightarrow> None)"

text \<open>
  The events of one complete run of \<open>generate_ad\<close>, in order: the entry, the request to
  the speech service, the audio file written (with content \<open>c\<close>), the look-up of the
  checkpoint, the rendering process, the opening of the rendered video (giving the clip
  \<open>vc\<close>) and the final video written. A run that fails stops somewhere along this list.
\<close>

definition pipeline_events ::
  "pystr \<Rightarrow> pystr list \<Rightarrow> pystr \<Rightarrow> nat list \<Rightarrow> video_clip \<Rightarrow> event list" where
  "pipeline_events t b p c vc =
     [Call_generate_ad t b p,
      HttpPost tts_url (tts_payload t),
      FileWrite (audio_path p) c,
      PathExists checkpoint,
      SubprocessRun (wav2lip_cmd (audio_path p) SPOKESPERSON_IMAGE (lip_video_path p)),
      VideoOpen (lip_video_path p),
      VideoWrite (final_output p) (final vc b (str ''(561) 576-0801'')) 24]"

text \<open>
  A concrete outside for the examples: a speech service that answers 200 with four bytes,
  files that can always be opened for writing, a rendering process that exits with status 0 and leaves a file at its last argument,
  and a decoder that reads every existing file as a 720 by 1280 video with sound. The
  second one differs in the speech service only, which answers 401. \<open>demo_world\<close> has
  the checkpoint in place and nothing else; \<open>bare_world\<close> has no file at all.
\<close>

definition demo_env :: env where
  "demo_env =
     \<lparr>requests_post =
        (\<lambda>w url p. \<lparr>status_code = 200, content = [82, 73, 70, 70], resp_text = []\<rparr>),
      open_wb = (\<lambda>w path. True),
      subprocess_run = (\<lambda>w cmd. (0, (store w)(resolve (last cmd) \<mapsto> Bytes [0]))),
      video_probe =
        (\<lambda>w path. if files w path = None then None else Some ((720, 1280), True))\<rparr>"

definition failing_tts_env :: env where
  "failing_tts_env =
     demo_env\<lparr>requests_post :=
       (\<lambda>w url p. \<lparr>status_code = 401, content = [], resp_text = str ''Unauthorized''\<rparr>)\<rparr>"

definition demo_world :: world where
  "demo_world = \<lparr>store = [resolve checkpoint \<mapsto> Bytes []], log = []\<rparr>"

definition bare_world :: world where
  "bare_world = \<lparr>store = Map.empty, log = []\<rparr>"

definition demo_clip :: "pystr \<Rightarrow> video_clip" where
  "demo_clip path =
     \<lparr>filename = path, clip_size = (720, 1280), audio = Some (AudioFileClip path)\<rparr>"

section \<open>Facts about the stages, the menu and the paths\<close>

lemma log_emit: "log (emit e w) = log w @ [e]"
  by (simp add: emit_def)

lemma files_emit: "files (emit e w) = files w"
  by (simp add: emit_def files_def fun_eq_iff)

lemma store_emit: "store (emit e w) = store w"
  by (simp add: emit_def)

lemma log_write_file: "log (write_file path c w) = log w"
  by (simp add: write_file_def)

lemma files_write_file:
  "files (write_file path c w) q = (if resolve q = resolve path then Some c else files w q)"
  by (simp add: write_file_def files_def)


lemma generate_audio_fail:
  "status_code (requests_post ev w tts_url (tts_payload t)) \<noteq> 200 \<Longrightarrow>
   generate_audio ev t path w =
     (Inl (RuntimeError
            (str ''ElevenLabs TTS failed: ''
             @ str_int (status_code (requests_post ev w tts_url (tts_payload t))) @ str '' ''
             @ resp_text (requests_post ev w tts_url (tts_payload t)))),
      emit (HttpPost tts_url (tts_payload t)) w)"
  by (simp add: generate_audio_def Let_def)

lemma generate_audio_ok:
  "status_code (requests_post ev w tts_url (tts_payload t)) = 200 \<Longrightarrow>
   open_wb ev (emit (HttpPost tts_url (tts_payload t)) w) path \<Longrightarrow>
   generate_audio ev t path w =
     (Inr path,
      emit (FileWrite path (content (requests_post ev w tts_url (tts_payload t))))
        (write_file path (Bytes (content (requests_post ev w tts_url (tts_payload t))))
           (emit (HttpPost tts_url (tts_payload t)) w)))"
  by (simp add: generate_audio_def Let_def)

lemma generate_audio_closed:
  "status_code (requests_post ev w tts_url (tts_payload t)) = 200 \<Longrightarrow>
   \<not> open_wb ev (emit (HttpPost tts_url (tts_payload t)) w) path \<Longrightarrow>
   generate_audio ev t path w = (Inl (OSError path), emit (HttpPost tts_url (tts_payload t)) w)"
  by (simp add: generate_audio_def Let_def)

lemma lip_sync_missing:
  "files w checkpoint = None \<Longrightarrow>
   generate_lip_synced_video ev a i out w =
     (Inl (FileNotFoundError (str ''Place wav2lip_gan.pth into Wav2Lip/checkpoints/ first.'')),
      emit (PathExists checkpoint) w)"
  by (simp add: generate_lip_synced_video_def Let_def)

lemma lip_sync_run:
  "files w checkpoint \<noteq> None \<Longrightarrow>
   generate_lip_synced_video ev a i out w =
     (if fst (subprocess_run ev (emit (PathExists checkpoint) w) (wav2lip_cmd a i out)) \<noteq> 0
      then Inl (CalledProcessError
                 (fst (subprocess_run ev (emit (PathExists checkpoint) w) (wav2lip_cmd a i out)))
                 (wav2lip_cmd a i out))
      else Inr out,
      \<lparr>store = snd (subprocess_run ev (emit (PathExists checkpoint) w) (wav2lip_cmd a i out)),
       log = log w @ [PathExists checkpoint, SubprocessRun (wav2lip_cmd a i out)]\<rparr>)"
  by (simp add: generate_lip_synced_video_def Let_def emit_def split: prod.splits)

lemma create_benefit_slides_world:
  "snd (create_benefit_slides vc bs ph path w) =
     emit (VideoWrite path (final vc bs ph) 24) (write_file path (Encoded (final vc bs ph) 24) w)"
  by (simp add: create_benefit_slides_def write_videofile_def)

lemma create_benefit_slides_log:
  "log (snd (create_benefit_slides vc bs ph path w)) = log w @ [VideoWrite path (final vc bs ph) 24]"
  by (simp add: create_benefit_slides_world log_emit log_write_file)

lemma create_benefit_slides_files:
  "files (snd (create_benefit_slides vc bs ph path w)) q =
     (if resolve q = resolve path then Some (Encoded (final vc bs ph) 24) else files w q)"
  by (simp add: create_benefit_slides_world files_emit files_write_file)

lemma timeline_slides_concat:
  "timeline (slides_concat vc bs ph)
     = map (\<lambda>t. Slide (txt_clip vc t)) bs @ [Slide (cta_clip vc ph)]"
  by (induction bs) (simp_all add: slides_concat_def slide_clips_def concatenate_videoclips_def)

lemma timeline_final:
  "timeline (final vc bs ph)
     = TalkingHead vc # map (\<lambda>t. Slide (txt_clip vc t)) bs @ [Slide (cta_clip vc ph)]"
  by (simp add: final_def concatenate_videoclips_def set_audio_def timeline_slides_concat)

lemma txt_clip_neq_cta_clip: "txt_clip vc t \<noteq> cta_clip vc ph"
proof
  assume "txt_clip vc t = cta_clip vc ph"
  then have "fontsize (txt_clip vc t) = fontsize (cta_clip vc ph)" by simp
  then show False
    by (simp add: txt_clip_def cta_clip_def set_position_def set_duration_def TextClip_def)
qed

lemma slides_of_final:
  "slides_of (timeline (final vc bs ph)) = map (txt_clip vc) bs @ [cta_clip vc ph]"
  by (induction bs) (simp_all add: timeline_final slides_of_def)

lemma slide_texts_final:
  "map clip_text (slides_of (timeline (final vc bs ph))) = bs @ [str ''Call Now: '' @ ph]"
  by (induction bs)
     (simp_all add: slides_of_final txt_clip_def cta_clip_def cta_text_def set_position_def
        set_duration_def TextClip_def)

lemma audio_tracks_slides_concat: "audio_tracks (slides_concat vc bs ph) = []"
  by (induction bs) (simp_all add: slides_concat_def slide_clips_def concatenate_videoclips_def)

lemma new_events_emit: "new_events w (emit e w) = [e]"
  by (simp add: new_events_def emit_def)

lemma generate_ad_events:
  "\<exists>c vc n. 2 \<le> n \<and> n \<le> 7
     \<and> log (snd (generate_ad ev t b p w)) = log w @ take n (pipeline_events t b p c vc)
     \<and> ((fst (generate_ad ev t b p w) = Inr ()) = (n = 7))
     \<and> (if n = 7
         then files (snd (generate_ad ev t b p w)) (final_output p)
                = Some (Encoded (final vc b (str ''(561) 576-0801'')) 24)
         else True)"
proof -
  define w0 where "w0 = emit (Call_generate_ad t b p) w"
  define resp where "resp = requests_post ev w0 tts_url (tts_payload t)"
  define wp where "wp = emit (HttpPost tts_url (tts_payload t)) w0"
  have l0: "log w0 = log w @ [Call_generate_ad t b p]"
    by (simp add: w0_def log_emit)
  have lp: "log wp = log w @ take 2 (pipeline_events t b p c vc)" for c vc
    by (simp add: wp_def log_emit l0 pipeline_events_def)
  show ?thesis
  proof (cases "status_code resp = 200")
    case False
    then have "generate_ad ev t b p w =
        (Inl (RuntimeError (str ''ElevenLabs TTS failed: '' @ str_int (status_code resp)
               @ str '' '' @ resp_text resp)), wp)"
      unfolding generate_ad_def w0_def [symmetric]
      by (simp add: generate_audio_fail resp_def wp_def)
    then have "log (snd (generate_ad ev t b p w)) = log w @ take 2 (pipeline_events t b p [] (demo_clip []))
       \<and> fst (generate_ad ev t b p w) \<noteq> Inr ()"
      by (simp add: lp)
    then show ?thesis
      by (intro exI [of _ "[]"] exI [of _ "demo_clip []"] exI [of _ 2]) simp
  next
    case ok: True
    show ?thesis
    proof (cases "open_wb ev wp (audio_path p)")
      case False
      with ok have "generate_ad ev t b p w = (Inl (OSError (audio_path p)), wp)"
        unfolding generate_ad_def w0_def [symmetric]
        by (simp add: generate_audio_closed resp_def wp_def)
      then have "log (snd (generate_ad ev t b p w)) = log w @ take 2 (pipeline_events t b p [] (demo_clip []))
         \<and> fst (generate_ad ev t b p w) \<noteq> Inr ()"
        by (simp add: lp)
      then show ?thesis
        by (intro exI [of _ "[]"] exI [of _ "demo_clip []"] exI [of _ 2]) simp
    next
      case op: True
      define c where "c = content resp"
      define w1 where "w1 = emit (FileWrite (audio_path p) c) (write_file (audio_path p) (Bytes c) wp)"
      have ga: "generate_audio ev t (audio_path p) w0 = (Inr (audio_path p), w1)"
        using ok op by (simp add: generate_audio_ok resp_def w1_def c_def wp_def)
      have l1: "log w1 = log w @ take 3 (pipeline_events t b p c vc)" for vc
        by (simp add: w1_def log_emit log_write_file lp [of c vc]) (simp add: pipeline_events_def)
      show ?thesis
      proof (cases "files w1 checkpoint = None")
        case True
        then have "generate_ad ev t b p w =
            (Inl (FileNotFoundError (str ''Place wav2lip_gan.pth into Wav2Lip/checkpoints/ first.'')),
             emit (PathExists checkpoint) w1)"
          unfolding generate_ad_def w0_def [symmetric]
          by (simp add: ga lip_sync_missing)
        then have "log (snd (generate_ad ev t b p w)) = log w @ take 4 (pipeline_events t b p c (demo_clip []))
           \<and> fst (generate_ad ev t b p w) \<noteq> Inr ()"
          by (simp add: log_emit l1 [of "demo_clip []"]) (simp add: pipeline_events_def)
        then show ?thesis
          by (intro exI [of _ c] exI [of _ "demo_clip []"] exI [of _ 4]) simp
      next
        case ck: False
        define cmd where "cmd = wav2lip_cmd (audio_path p) SPOKESPERSON_IMAGE (lip_video_path p)"
        define run where "run = subprocess_run ev (emit (PathExists checkpoint) w1) cmd"
        define w2 where "w2 = \<lparr>store = snd run, log = log w1 @ [PathExists checkpoint, SubprocessRun cmd]\<rparr>"
        have ls: "generate_lip_synced_video ev (audio_path p) SPOKESPERSON_IMAGE (lip_video_path p) w1
            = (if fst run \<noteq> 0 then Inl (CalledProcessError (fst run) cmd) else Inr (lip_video_path p), w2)"
          using ck by (simp add: lip_sync_run cmd_def run_def w2_def)
        have l2: "log w2 = log w @ take 5 (pipeline_events t b p c vc)" for vc
          by (simp add: w2_def l1 [of vc]) (simp add: pipeline_events_def cmd_def)
        show ?thesis
        proof (cases "fst run = 0")
          case False
          then have "generate_ad ev t b p w = (Inl (CalledProcessError (fst run) cmd), w2)"
            unfolding generate_ad_def w0_def [symmetric]
            by (simp add: ga ls)
          then have "log (snd (generate_ad ev t b p w)) = log w @ take 5 (pipeline_events t b p c (demo_clip []))
             \<and> fst (generate_ad ev t b p w) \<noteq> Inr ()"
            by (simp add: l2 [of "demo_clip []"])
          then show ?thesis
            by (intro exI [of _ c] exI [of _ "demo_clip []"] exI [of _ 5]) simp
        next
          case rc: True
          show ?thesis
          proof (cases "video_probe ev w2 (lip_video_path p)")
            case None
            then have "generate_ad ev t b p w =
                (Inl (OSError (lip_video_path p)), emit (VideoOpen (lip_video_path p)) w2)"
              unfolding generate_ad_def w0_def [symmetric]
              by (simp add: ga ls rc VideoFileClip_def Let_def)
            then have "log (snd (generate_ad ev t b p w)) = log w @ take 6 (pipeline_events t b p c (demo_clip []))
               \<and> fst (generate_ad ev t b p w) \<noteq> Inr ()"
              by (simp add: log_emit l2 [of "demo_clip []"]) (simp add: pipeline_events_def)
            then show ?thesis
              by (intro exI [of _ c] exI [of _ "demo_clip []"] exI [of _ 6]) simp
          next
            case (Some pr)
            define vc where "vc = \<lparr>filename = lip_video_path p, clip_size = fst pr,
                audio = (if snd pr then Some (AudioFileClip (lip_video_path p)) else None)\<rparr>"
            have vf: "VideoFileClip ev (lip_video_path p) w2 = (Inr vc, emit (VideoOpen (lip_video_path p)) w2)"
              using Some by (cases pr) (simp add: VideoFileClip_def Let_def vc_def)
            have "generate_ad ev t b p w =
                (Inr (), snd (create_benefit_slides vc b (str ''(561) 576-0801'') (final_output p)
                           (emit (VideoOpen (lip_video_path p)) w2)))"
              unfolding generate_ad_def w0_def [symmetric]
              by (simp add: ga ls rc vf split: prod.splits)
            then have "log (snd (generate_ad ev t b p w)) = log w @ take 7 (pipeline_events t b p c vc)
               \<and> fst (generate_ad ev t b p w) = Inr ()
               \<and> files (snd (generate_ad ev t b p w)) (final_output p)
                  = Some (Encoded (final vc b (str ''(561) 576-0801'')) 24)"
              by (simp add: create_benefit_slides_log create_benefit_slides_files log_emit l2 [of vc])
                 (simp add: pipeline_events_def)
            then show ?thesis
              by (intro exI [of _ c] exI [of _ vc] exI [of _ 7]) simp
          qed
        qed
      qed
    qed
  qed
qed

lemma run_then_continue:
  assumes g: "\<exists>c vc n. 2 \<le> n \<and> n \<le> 7
                \<and> log (snd (generate_ad ev t b p w)) = log w @ take n (pipeline_events t b p c vc)"
      and q: "\<And>c vc n. 2 \<le> n \<Longrightarrow> n \<le> 7 \<Longrightarrow> Q (take n (pipeline_events t b p c vc))"
      and k: "\<And>w'. \<exists>runs. log (snd (main ev ls w')) = log w' @ concat runs \<and> (\<forall>r\<in>set runs. Q r)"
  shows "\<exists>runs. log (snd (case generate_ad ev t b p w of
                              (Inl e, w') \<Rightarrow> (Inl e, w')
                            | (Inr u, w') \<Rightarrow> main ev ls w')) = log w @ concat runs
               \<and> (\<forall>r\<in>set runs. Q r)"
proof (cases "generate_ad ev t b p w")
  case (Pair r w')
  from g Pair obtain c vc n where n: "2 \<le> n" "n \<le> 7"
    and e1: "log w' = log w @ take n (pipeline_events t b p c vc)"
    by auto
  let ?r1 = "take n (pipeline_events t b p c vc)"
  have q1: "Q ?r1" using n by (rule q)
  show ?thesis
  proof (cases r)
    case (Inl e)
    have "log w' = log w @ concat [?r1] \<and> (\<forall>r\<in>set [?r1]. Q r)"
      using e1 q1 by simp
    then have "\<exists>runs. log w' = log w @ concat runs \<and> (\<forall>r\<in>set runs. Q r)"
      by (rule exI)
    with Pair Inl show ?thesis by simp
  next
    case (Inr u)
    from k [of w'] obtain runs2 where e2: "log (snd (main ev ls w')) = log w' @ concat runs2"
      "\<forall>r\<in>set runs2. Q r"
      by blast
    have "log (snd (main ev ls w')) = log w @ concat (?r1 # runs2)
        \<and> (\<forall>r\<in>set (?r1 # runs2). Q r)"
      using e1 e2 q1 by simp
    then have "\<exists>runs. log (snd (main ev ls w')) = log w @ concat runs \<and> (\<forall>r\<in>set runs. Q r)"
      by (rule exI)
    with Pair Inr show ?thesis by simp
  qed
qed

lemma main_runs:
  assumes aca: "\<And>c vc n. 2 \<le> n \<Longrightarrow> n \<le> 7 \<Longrightarrow>
                  Q (take n (pipeline_events ACA_TEMPLATE ACA_BENEFITS (str ''aca_ad'') c vc))"
      and fe: "\<And>c vc n. 2 \<le> n \<Longrightarrow> n \<le> 7 \<Longrightarrow>
                  Q (take n (pipeline_events FE_TEMPLATE FE_BENEFITS (str ''fe_ad'') c vc))"
      and cu: "\<And>custom bullets c vc n. 2 \<le> n \<Longrightarrow> n \<le> 7 \<Longrightarrow>
                  Q (take n (pipeline_events (strip custom) (custom_benefit_list bullets)
                               (str ''custom_ad'') c vc))"
  shows "\<exists>runs. log (snd (main ev ls w)) = log w @ concat runs \<and> (\<forall>r\<in>set runs. Q r)"
proof (induction "length ls" arbitrary: ls w rule: less_induct)
  case less
  have nil: "\<exists>runs. log w' = log w' @ concat runs \<and> (\<forall>r\<in>set runs. Q r)" for w' :: world
    by (rule exI [of _ "[]"]) simp
  have g: "\<exists>c vc n. 2 \<le> n \<and> n \<le> 7
                \<and> log (snd (generate_ad ev t b p w)) = log w @ take n (pipeline_events t b p c vc)"
    for t b p
    using generate_ad_events [of ev t b p w] by blast
  show ?case
  proof (cases ls)
    case Nil
    then show ?thesis using nil [of w] by simp
  next
    case (Cons l rest)
    have ih: "\<exists>runs. log (snd (main ev ls' w')) = log w' @ concat runs \<and> (\<forall>r\<in>set runs. Q r)"
      if "length ls' < length ls" for ls' w'
      using less that by blast
    have ih1: "\<exists>runs. log (snd (main ev rest w')) = log w' @ concat runs \<and> (\<forall>r\<in>set runs. Q r)" for w'
      using ih [of rest w'] Cons by simp
    consider (one) "strip l = str ''1''"
      | (two) "strip l \<noteq> str ''1''" "strip l = str ''2''"
      | (three) "strip l \<noteq> str ''1''" "strip l \<noteq> str ''2''" "strip l = str ''3''"
      | (four) "strip l \<noteq> str ''1''" "strip l \<noteq> str ''2''" "strip l \<noteq> str ''3''" "strip l = str ''4''"
      | (other) "strip l \<noteq> str ''1''" "strip l \<noteq> str ''2''" "strip l \<noteq> str ''3''" "strip l \<noteq> str ''4''"
      by blast
    then show ?thesis
    proof cases
      case one
      from run_then_continue [OF g aca ih1] show ?thesis
        unfolding Cons main.simps Let_def by (simp add: one)
    next
      case two
      from run_then_continue [OF g fe ih1] show ?thesis
        unfolding Cons main.simps Let_def using two by simp
    next
      case three
      show ?thesis
      proof (cases rest)
        case Nil
        then show ?thesis unfolding Cons main.simps Let_def using three nil [of w] by simp
      next
        case c1: (Cons custom rest1)
        show ?thesis
        proof (cases rest1)
          case Nil
          then show ?thesis unfolding Cons c1 main.simps Let_def using three nil [of w] by simp
        next
          case c2: (Cons bullets rest2)
          have ih2: "\<exists>runs. log (snd (main ev rest2 w')) = log w' @ concat runs \<and> (\<forall>r\<in>set runs. Q r)" for w'
            using ih [of rest2 w'] Cons c1 c2 by simp
          from run_then_continue [OF g cu ih2] show ?thesis
            unfolding Cons c1 c2 main.simps Let_def using three by simp
        qed
      qed
    next
      case four
      then show ?thesis unfolding Cons main.simps Let_def using nil [of w] by simp
    next
      case other
      then show ?thesis unfolding Cons main.simps Let_def using ih1 [of w] by simp
    qed
  qed
qed

lemma main_events:
  assumes aca: "\<And>c vc e. e \<in> set (pipeline_events ACA_TEMPLATE ACA_BENEFITS (str ''aca_ad'') c vc) \<Longrightarrow> P e"
      and fe: "\<And>c vc e. e \<in> set (pipeline_events FE_TEMPLATE FE_BENEFITS (str ''fe_ad'') c vc) \<Longrightarrow> P e"
      and cu: "\<And>custom bullets c vc e.
                 e \<in> set (pipeline_events (strip custom) (custom_benefit_list bullets) (str ''custom_ad'') c vc) \<Longrightarrow> P e"
  shows "\<exists>evs. log (snd (main ev ls w)) = log w @ evs \<and> (\<forall>e\<in>set evs. P e)"
proof -
  have "\<exists>runs. log (snd (main ev ls w)) = log w @ concat runs \<and> (\<forall>r\<in>set runs. \<forall>e\<in>set r. P e)"
  proof (rule main_runs)
    show "\<forall>e\<in>set (take n (pipeline_events ACA_TEMPLATE ACA_BENEFITS (str ''aca_ad'') c vc)). P e"
      for c vc n using aca by (blast dest: in_set_takeD)
    show "\<forall>e\<in>set (take n (pipeline_events FE_TEMPLATE FE_BENEFITS (str ''fe_ad'') c vc)). P e"
      for c vc n using fe by (blast dest: in_set_takeD)
    show "\<forall>e\<in>set (take n (pipeline_events (strip custom) (custom_benefit_list bullets)
                                (str ''custom_ad'') c vc)). P e"
      for custom bullets c vc n using cu by (blast dest: in_set_takeD)
  qed
  then obtain runs where "log (snd (main ev ls w)) = log w @ concat runs"
    "\<forall>r\<in>set runs. \<forall>e\<in>set r. P e"
    by blast
  then show ?thesis by auto
qed

lemma main_extends_log: "\<exists>evs. log (snd (main ev ls w)) = log w @ evs"
  using main_events [of "\<lambda>e. True" ev ls w] by blast

lemma demo_run:
  assumes "files w checkpoint \<noteq> None"
  shows "fst (generate_ad demo_env t b p w) = Inr ()
    \<and> log (snd (generate_ad demo_env t b p w))
        = log w @ pipeline_events t b p [82, 73, 70, 70] (demo_clip (lip_video_path p))
    \<and> files (snd (generate_ad demo_env t b p w)) (final_output p)
        = Some (Encoded (final (demo_clip (lip_video_path p)) b (str ''(561) 576-0801'')) 24)
    \<and> files (snd (generate_ad demo_env t b p w)) checkpoint \<noteq> None"
proof -
  define w0 where "w0 = emit (Call_generate_ad t b p) w"
  define w1 where "w1 = emit (FileWrite (audio_path p) [82, 73, 70, 70])
      (write_file (audio_path p) (Bytes [82, 73, 70, 70]) (emit (HttpPost tts_url (tts_payload t)) w0))"
  define cmd where "cmd = wav2lip_cmd (audio_path p) SPOKESPERSON_IMAGE (lip_video_path p)"
  define w2 where "w2 = \<lparr>store = (store w1)(resolve (lip_video_path p) \<mapsto> Bytes [0]),
       log = log w1 @ [PathExists checkpoint, SubprocessRun cmd]\<rparr>"
  have ga: "generate_audio demo_env t (audio_path p) w0 = (Inr (audio_path p), w1)"
    by (simp add: generate_audio_ok demo_env_def w1_def)
  have ck1: "files w1 checkpoint \<noteq> None"
    using assms by (simp add: w1_def w0_def files_emit files_write_file)
  have lastcmd: "last cmd = lip_video_path p"
    by (simp add: cmd_def wav2lip_cmd_def)
  have ls: "generate_lip_synced_video demo_env (audio_path p) SPOKESPERSON_IMAGE (lip_video_path p) w1
      = (Inr (lip_video_path p), w2)"
    using lastcmd
    by (simp add: lip_sync_run [OF ck1] cmd_def [symmetric])
       (simp add: demo_env_def w2_def store_emit)
  have f2: "files w2 (lip_video_path p) \<noteq> None"
    by (simp add: w2_def files_def)
  have vf: "VideoFileClip demo_env (lip_video_path p) w2
      = (Inr (demo_clip (lip_video_path p)), emit (VideoOpen (lip_video_path p)) w2)"
    using f2 by (auto simp: VideoFileClip_def Let_def demo_env_def demo_clip_def)
  have g: "generate_ad demo_env t b p w =
      (Inr (), snd (create_benefit_slides (demo_clip (lip_video_path p)) b (str ''(561) 576-0801'')
                      (final_output p) (emit (VideoOpen (lip_video_path p)) w2)))"
    unfolding generate_ad_def w0_def [symmetric]
    by (simp add: ga ls vf split: prod.splits)
  have l: "log w2 = log w @ take 5 (pipeline_events t b p [82, 73, 70, 70] (demo_clip (lip_video_path p)))"
    by (simp add: w2_def w1_def w0_def log_emit log_write_file pipeline_events_def cmd_def)
  have ck2: "files w2 checkpoint \<noteq> None"
    using ck1 by (simp add: w2_def files_def)
  have "log (snd (generate_ad demo_env t b p w))
        = log w @ pipeline_events t b p [82, 73, 70, 70] (demo_clip (lip_video_path p))"
    by (simp add: g create_benefit_slides_log log_emit l) (simp add: pipeline_events_def)
  moreover have "files (snd (generate_ad demo_env t b p w)) checkpoint \<noteq> None"
    using ck2 by (simp add: g create_benefit_slides_files files_emit)
  moreover have "files (snd (generate_ad demo_env t b p w)) (final_output p)
        = Some (Encoded (final (demo_clip (lip_video_path p)) b (str ''(561) 576-0801'')) 24)"
    by (simp add: g create_benefit_slides_files)
  ultimately show ?thesis
    by (simp add: g)
qed

lemma run_ok_continue:
  "fst (generate_ad ev t b p w) = Inr () \<Longrightarrow>
   (case generate_ad ev t b p w of (Inl e, w') \<Rightarrow> (Inl e, w') | (Inr u, w') \<Rightarrow> k w')
     = k (snd (generate_ad ev t b p w))"
  by (cases "generate_ad ev t b p w") (auto split: sum.splits)

lemma run_failed_stop:
  "fst (generate_ad ev t b p w) \<noteq> Inr () \<Longrightarrow>
   snd (case generate_ad ev t b p w of (Inl e, w') \<Rightarrow> (Inl e, w') | (Inr u, w') \<Rightarrow> k w')
     = snd (generate_ad ev t b p w)"
  by (cases "generate_ad ev t b p w") (auto split: sum.splits)

lemma stripped_choices:
  "strip (str ''1'') = str ''1''" "strip (str ''2'') = str ''2''"
  "strip (str ''3'') = str ''3''" "strip (str ''4'') = str ''4''"
  "str ''2'' \<noteq> str ''1''" "str ''3'' \<noteq> str ''1''" "str ''3'' \<noteq> str ''2''"
  "str ''4'' \<noteq> str ''1''" "str ''4'' \<noteq> str ''2''" "str ''4'' \<noteq> str ''3''"
  by (simp_all add: strip_def str_def isspace_def)

lemma main_choice_1:
  "strip l = str ''1'' \<Longrightarrow>
   main ev (l # ls) w =
     (case generate_ad ev ACA_TEMPLATE ACA_BENEFITS (str ''aca_ad'') w of
        (Inl e, w') \<Rightarrow> (Inl e, w')
      | (Inr u, w') \<Rightarrow> main ev ls w')"
  by simp

lemma main_choice_2:
  "strip l = str ''2'' \<Longrightarrow>
   main ev (l # ls) w =
     (case generate_ad ev FE_TEMPLATE FE_BENEFITS (str ''fe_ad'') w of
        (Inl e, w') \<Rightarrow> (Inl e, w')
      | (Inr u, w') \<Rightarrow> main ev ls w')"
  by (simp add: stripped_choices)

lemma main_choice_3:
  "strip l = str ''3'' \<Longrightarrow>
   main ev (l # custom # bullets # rest) w =
     (case generate_ad ev (strip custom) (custom_benefit_list bullets) (str ''custom_ad'') w of
        (Inl e, w') \<Rightarrow> (Inl e, w')
      | (Inr u, w') \<Rightarrow> main ev rest w')"
  by (simp add: stripped_choices)

lemma main_choice_4: "strip l = str ''4'' \<Longrightarrow> main ev (l # ls) w = (Inr (), w)"
  by (simp add: stripped_choices)

lemma step_events:
  assumes k: "\<And>w'. \<exists>evs. log (snd (k w')) = log w' @ evs"
  shows "\<exists>c vc n. 2 \<le> n \<and> n \<le> 7 \<and> ((fst (generate_ad ev t b p w) = Inr ()) = (n = 7))
      \<and> new_events w (snd (case generate_ad ev t b p w of
                               (Inl e, w') \<Rightarrow> (Inl e, w')
                             | (Inr u, w') \<Rightarrow> k w'))
         = take n (pipeline_events t b p c vc)
           @ (if n = 7
              then new_events (snd (generate_ad ev t b p w)) (snd (k (snd (generate_ad ev t b p w))))
              else [])"
proof -
  obtain c vc n where n: "2 \<le> n" "n \<le> 7"
    and l: "log (snd (generate_ad ev t b p w)) = log w @ take n (pipeline_events t b p c vc)"
    and s: "(fst (generate_ad ev t b p w) = Inr ()) = (n = 7)"
    using generate_ad_events [of ev t b p w] by blast
  let ?w1 = "snd (generate_ad ev t b p w)"
  have "new_events w (snd (case generate_ad ev t b p w of
                               (Inl e, w') \<Rightarrow> (Inl e, w')
                             | (Inr u, w') \<Rightarrow> k w'))
         = take n (pipeline_events t b p c vc)
           @ (if n = 7 then new_events ?w1 (snd (k ?w1)) else [])"
  proof (cases "n = 7")
    case True
    with s have ok: "fst (generate_ad ev t b p w) = Inr ()" by simp
    from k [of ?w1] obtain evs where e: "log (snd (k ?w1)) = log ?w1 @ evs" by blast
    then have "new_events ?w1 (snd (k ?w1)) = evs"
      by (simp add: new_events_def)
    moreover have "new_events w (snd (k ?w1)) = take n (pipeline_events t b p c vc) @ evs"
      by (simp add: new_events_def e l)
    ultimately show ?thesis
      using True by (simp add: run_ok_continue [OF ok])
  next
    case False
    with s have "fst (generate_ad ev t b p w) \<noteq> Inr ()" by simp
    then have "snd (case generate_ad ev t b p w of
                      (Inl e, w') \<Rightarrow> (Inl e, w')
                    | (Inr u, w') \<Rightarrow> k w') = snd (generate_ad ev t b p w)"
      by (rule run_failed_stop)
    with False show ?thesis
      by (simp add: new_events_def l)
  qed
  with n s show ?thesis by blast
qed











lemma closing_text_final:
  "closing_slide_text (final vc bs ph) = Some (cta_text ph)"
  by (simp add: closing_slide_text_def timeline_final cta_clip_def set_position_def
      set_duration_def TextClip_def)

lemma cta_text_literal: "cta_text (str ''(561) 576-0801'') = str ''Call Now: (561) 576-0801''"
  by (simp add: cta_text_def str_def)

lemma video_write_in_pipeline:
  "VideoWrite path c fps \<in> set (pipeline_events t b p cn vc) \<Longrightarrow>
   c = final vc b (str ''(561) 576-0801'') \<and> path = final_output p \<and> fps = 24"
  by (simp add: pipeline_events_def)

lemma call_in_pipeline:
  "Call_generate_ad t' b' p' \<in> set (pipeline_events t b p cn vc) \<Longrightarrow> t' = t \<and> b' = b \<and> p' = p"
  by (simp add: pipeline_events_def)

lemma successful_run:
  assumes "fst (generate_ad ev t b p w) = Inr ()"
  shows "\<exists>c vc. new_events w (snd (generate_ad ev t b p w)) = pipeline_events t b p c vc
           \<and> files (snd (generate_ad ev t b p w)) (final_output p)
               = Some (Encoded (final vc b (str ''(561) 576-0801'')) 24)"
proof -
  obtain c vc n where l: "log (snd (generate_ad ev t b p w)) = log w @ take n (pipeline_events t b p c vc)"
    and s: "(fst (generate_ad ev t b p w) = Inr ()) = (n = 7)"
    and f: "if n = 7 then files (snd (generate_ad ev t b p w)) (final_output p)
                = Some (Encoded (final vc b (str ''(561) 576-0801'')) 24) else True"
    using generate_ad_events [of ev t b p w] by blast
  from assms s have n: "n = 7" by simp
  have "take 7 (pipeline_events t b p c vc) = pipeline_events t b p c vc"
    by (simp add: pipeline_events_def)
  with l n f show ?thesis
    by (auto simp: new_events_def)
qed

lemma demo_world_checkpoint: "files demo_world checkpoint \<noteq> None"
  by (simp add: demo_world_def files_def)

lemma demo_main_1_4:
  "fst (main demo_env [str ''1'', str ''4''] demo_world) = Inr ()
   \<and> log (snd (main demo_env [str ''1'', str ''4''] demo_world))
       = pipeline_events ACA_TEMPLATE ACA_BENEFITS (str ''aca_ad'') [82, 73, 70, 70]
           (demo_clip (lip_video_path (str ''aca_ad'')))"
proof -
  note ck = demo_world_checkpoint
  have l0: "log demo_world = []"
    by (simp add: demo_world_def)
  note d = demo_run [OF ck, of ACA_TEMPLATE ACA_BENEFITS "str ''aca_ad''"]
  have f: "fst (generate_ad demo_env ACA_TEMPLATE ACA_BENEFITS (str ''aca_ad'') demo_world) = Inr ()"
    using d by simp
  have m: "main demo_env [str ''1'', str ''4''] demo_world
      = (Inr (), snd (generate_ad demo_env ACA_TEMPLATE ACA_BENEFITS (str ''aca_ad'') demo_world))"
    by (simp only: main_choice_1 [OF stripped_choices(1)] run_ok_continue [OF f]
        main_choice_4 [OF stripped_choices(4)])
  show ?thesis
    using d by (simp only: m fst_conv snd_conv l0 append_Nil simp_thms)
qed

lemma custom_benefit_list_nonempty: "custom_benefit_list line \<noteq> []"
  by (simp add: custom_benefit_list_def Let_def DEFAULT_BENEFITS_def)

lemma custom_benefit_list_cases:
  "custom_benefit_list line =
     (if list_all (\<lambda>b. strip b = []) (split_comma line) then DEFAULT_BENEFITS
      else map strip (filter (\<lambda>b. strip b \<noteq> []) (split_comma line)))"
  by (auto simp: custom_benefit_list_def Let_def filter_empty_conv list_all_iff)

lemma txt_clip_record:
  "txt_clip vc t =
     \<lparr>clip_text = t, fontsize = 48, font = str ''Arial-Bold'', color = str ''white'',
      txt_size = clip_size vc, txt_method = str ''caption'', align = str ''center'',
      duration = Some 3, pos = Some (str ''center'')\<rparr>"
  by (simp add: txt_clip_def set_position_def set_duration_def TextClip_def)

lemma cta_clip_record:
  "cta_clip vc ph =
     \<lparr>clip_text = str ''Call Now: '' @ ph, fontsize = 60, font = str ''Arial-Bold'',
      color = str ''yellow'', txt_size = clip_size vc, txt_method = str ''caption'',
      align = str ''center'', duration = Some 4, pos = Some (str ''center'')\<rparr>"
  by (simp add: cta_clip_def cta_text_def set_position_def set_duration_def TextClip_def)

lemma slide_fontsizes_final:
  "map fontsize (slides_of (timeline (final vc bs ph))) = replicate (length bs) 48 @ [60]"
  by (induction bs) (simp_all add: slides_of_final txt_clip_record cta_clip_record)

lemma first_events:
  "2 \<le> n \<Longrightarrow>
   take 2 (take n (pipeline_events t b p c vc) @ rest)
     = [Call_generate_ad t b p, HttpPost tts_url (tts_payload t)]"
  by (simp add: pipeline_events_def take_Cons' min_def)

lemma call_in_run:
  "2 \<le> n \<Longrightarrow> Call_generate_ad t b p \<in> set (take n (pipeline_events t b p c vc))"
  by (simp add: pipeline_events_def take_Cons')

lemma custom_entry_events:
  assumes "strip l = str ''3''"
  shows "\<exists>c vc n tl. 2 \<le> n
    \<and> new_events w (snd (main ev (l # custom # bullets # rest) w))
        = take n (pipeline_events (strip custom) (custom_benefit_list bullets) (str ''custom_ad'') c vc)
          @ tl"
  unfolding main_choice_3 [OF assms]
  using step_events [of "main ev rest" ev "strip custom" "custom_benefit_list bullets"
      "str ''custom_ad''" w, OF main_extends_log]
  by blast

lemma cta_literal: "str ''Call Now: '' @ str ''(561) 576-0801'' = str ''Call Now: (561) 576-0801''"
  by (simp add: str_def)

lemma video_write_in_run:
  "VideoWrite path c fps \<in> set (take n (pipeline_events t b p cn vc)) \<Longrightarrow>
   c = final vc b (str ''(561) 576-0801'')"
  using video_write_in_pipeline by (blast dest: in_set_takeD)

lemma call_in_run_only:
  "Call_generate_ad t' b' p' \<in> set (take n (pipeline_events t b p cn vc)) \<Longrightarrow>
   t' = t \<and> b' = b \<and> p' = p"
  using call_in_pipeline by (blast dest: in_set_takeD)

lemma two_runs:
  assumes m1: "\<And>w. main ev L1 w =
                 (case generate_ad ev t1 b1 p w of
                    (Inl e, w') \<Rightarrow> (Inl e, w')
                  | (Inr u, w') \<Rightarrow> main ev L2 w')"
      and m2: "\<And>w. main ev L2 w =
                 (case generate_ad ev t2 b2 p w of
                    (Inl e, w') \<Rightarrow> (Inl e, w')
                  | (Inr u, w') \<Rightarrow> main ev L3 w')"
  shows "\<exists>c1 vc1 n1 c2 vc2 n2 tl. 2 \<le> n1 \<and> n1 \<le> 7 \<and> 2 \<le> n2 \<and> n2 \<le> 7
      \<and> ((fst (generate_ad ev t1 b1 p w) = Inr ()) = (n1 = 7))
      \<and> new_events w (snd (main ev L1 w))
          = take n1 (pipeline_events t1 b1 p c1 vc1)
            @ (if n1 = 7 then take n2 (pipeline_events t2 b2 p c2 vc2) @ tl else [])"
proof -
  let ?w1 = "snd (generate_ad ev t1 b1 p w)"
  from step_events [of "main ev L2" ev t1 b1 p w, OF main_extends_log]
  obtain c1 vc1 n1 where n1: "2 \<le> n1" "n1 \<le> 7"
    and s1: "(fst (generate_ad ev t1 b1 p w) = Inr ()) = (n1 = 7)"
    and e1: "new_events w (snd (main ev L1 w))
        = take n1 (pipeline_events t1 b1 p c1 vc1)
          @ (if n1 = 7 then new_events ?w1 (snd (main ev L2 ?w1)) else [])"
    unfolding m1 [symmetric] by blast
  from step_events [of "main ev L3" ev t2 b2 p ?w1, OF main_extends_log]
  obtain c2 vc2 n2 tl where n2: "2 \<le> n2" "n2 \<le> 7"
    and e2: "new_events ?w1 (snd (main ev L2 ?w1)) = take n2 (pipeline_events t2 b2 p c2 vc2) @ tl"
    unfolding m2 [symmetric] by blast
  from n1 n2 s1 e1 show ?thesis
    unfolding e2 by blast
qed

lemma demo_main_1_1_4:
  "fst (main demo_env [str ''1'', str ''1'', str ''4''] demo_world) = Inr ()
   \<and> new_events demo_world (snd (main demo_env [str ''1'', str ''1'', str ''4''] demo_world))
       = pipeline_events ACA_TEMPLATE ACA_BENEFITS (str ''aca_ad'') [82, 73, 70, 70]
           (demo_clip (lip_video_path (str ''aca_ad'')))
         @ pipeline_events ACA_TEMPLATE ACA_BENEFITS (str ''aca_ad'') [82, 73, 70, 70]
           (demo_clip (lip_video_path (str ''aca_ad'')))
   \<and> files (snd (main demo_env [str ''1'', str ''1'', str ''4''] demo_world))
        (final_output (str ''aca_ad''))
       = Some (Encoded (final (demo_clip (lip_video_path (str ''aca_ad''))) ACA_BENEFITS
                          (str ''(561) 576-0801'')) 24)"
proof -
  let ?w1 = "snd (generate_ad demo_env ACA_TEMPLATE ACA_BENEFITS (str ''aca_ad'') demo_world)"
  let ?w2 = "snd (generate_ad demo_env ACA_TEMPLATE ACA_BENEFITS (str ''aca_ad'') ?w1)"
  note d1 = demo_run [OF demo_world_checkpoint, of ACA_TEMPLATE ACA_BENEFITS "str ''aca_ad''"]
  from d1 have ck1: "files ?w1 checkpoint \<noteq> None" by simp
  note d2 = demo_run [OF ck1, of ACA_TEMPLATE ACA_BENEFITS "str ''aca_ad''"]
  have f1: "fst (generate_ad demo_env ACA_TEMPLATE ACA_BENEFITS (str ''aca_ad'') demo_world) = Inr ()"
    using d1 by simp
  have f2: "fst (generate_ad demo_env ACA_TEMPLATE ACA_BENEFITS (str ''aca_ad'') ?w1) = Inr ()"
    using d2 by simp
  have m: "main demo_env [str ''1'', str ''1'', str ''4''] demo_world = (Inr (), ?w2)"
    by (simp only: main_choice_1 [OF stripped_choices(1)] run_ok_continue [OF f1]
        run_ok_continue [OF f2] main_choice_4 [OF stripped_choices(4)])
  have l0: "log demo_world = []"
    by (simp add: demo_world_def)
  have "log ?w2 = pipeline_events ACA_TEMPLATE ACA_BENEFITS (str ''aca_ad'') [82, 73, 70, 70]
           (demo_clip (lip_video_path (str ''aca_ad'')))
         @ pipeline_events ACA_TEMPLATE ACA_BENEFITS (str ''aca_ad'') [82, 73, 70, 70]
           (demo_clip (lip_video_path (str ''aca_ad'')))"
    using d1 d2 by (simp only: l0 append_Nil)
  then have n: "new_events demo_world ?w2
       = pipeline_events ACA_TEMPLATE ACA_BENEFITS (str ''aca_ad'') [82, 73, 70, 70]
           (demo_clip (lip_video_path (str ''aca_ad'')))
         @ pipeline_events ACA_TEMPLATE ACA_BENEFITS (str ''aca_ad'') [82, 73, 70, 70]
           (demo_clip (lip_video_path (str ''aca_ad'')))"
    by (simp only: new_events_def l0 list.size drop_0)
  from d2 n show ?thesis
    by (simp only: m fst_conv snd_conv simp_thms)
qed


section \<open>The slide composer\<close>

text \<open>
  C1. Whatever the talking-head clip, the benefit texts, the phone number and the output
  path, \<open>create_benefit_slides\<close> returns the output path and leaves at that path the
  encoding of the clip \<open>final\<close>. Its visual timeline is the talking-head clip, then one
  slide per benefit text, then the call-to-action slide, and nothing else: it has two
  segments more than there are benefit texts. The texts of the slides are the benefit
  texts in the order supplied, followed by \<open>Call Now:\<close> and the phone number; the font
  sizes are 48 for every benefit slide and 60 for the last slide, so the call-to-action
  slide differs from every benefit slide and occurs once, at the end. The two last
  conjuncts give every parameter of a benefit slide and of the call-to-action slide.
\<close>

theorem composer_timeline_order:
  "fst (create_benefit_slides vc benefit_texts phone_number output_path w) = output_path
   \<and> files (snd (create_benefit_slides vc benefit_texts phone_number output_path w)) output_path
       = Some (Encoded (final vc benefit_texts phone_number) 24)
   \<and> timeline (final vc benefit_texts phone_number)
       = TalkingHead vc # map (\<lambda>t. Slide (txt_clip vc t)) benefit_texts
         @ [Slide (cta_clip vc phone_number)]
   \<and> Slide (cta_clip vc phone_number) \<notin> set (map (\<lambda>t. Slide (txt_clip vc t)) benefit_texts)
   \<and> length (timeline (final vc benefit_texts phone_number)) = length benefit_texts + 2
   \<and> map clip_text (slides_of (timeline (final vc benefit_texts phone_number)))
       = benefit_texts @ [str ''Call Now: '' @ phone_number]
   \<and> map fontsize (slides_of (timeline (final vc benefit_texts phone_number)))
       = replicate (length benefit_texts) 48 @ [60]
   \<and> txt_clip vc t =
       \<lparr>clip_text = t, fontsize = 48, font = str ''Arial-Bold'', color = str ''white'',
        txt_size = clip_size vc, txt_method = str ''caption'', align = str ''center'',
        duration = Some 3, pos = Some (str ''center'')\<rparr>
   \<and> cta_clip vc phone_number =
       \<lparr>clip_text = str ''Call Now: '' @ phone_number, fontsize = 60, font = str ''Arial-Bold'',
        color = str ''yellow'', txt_size = clip_size vc, txt_method = str ''caption'',
        align = str ''center'', duration = Some 4, pos = Some (str ''center'')\<rparr>"
proof -
  have "Slide (cta_clip vc phone_number) \<notin> set (map (\<lambda>t. Slide (txt_clip vc t)) benefit_texts)"
    using txt_clip_neq_cta_clip [of vc _ phone_number] by (auto dest: sym)
  moreover have "fst (create_benefit_slides vc benefit_texts phone_number output_path w) = output_path"
    by (simp add: create_benefit_slides_def)
  moreover have "length (timeline (final vc benefit_texts phone_number)) = length benefit_texts + 2"
    by (simp add: timeline_final)
  ultimately show ?thesis
    using txt_clip_record [of vc t] cta_clip_record [of vc phone_number]
      slide_texts_final [of vc benefit_texts phone_number]
      slide_fontsizes_final [of vc benefit_texts phone_number]
      timeline_final [of vc benefit_texts phone_number]
      create_benefit_slides_files [of vc benefit_texts phone_number output_path w output_path]
    by (simp only: simp_thms if_True)
qed

text \<open>
  C5. The slides of the final clip are one \<open>txt_clip\<close> per benefit text followed by the
  \<open>cta_clip\<close>. Every benefit slide lasts 3 seconds, has the frame size of the
  talking-head clip, font size 48 and the colour white; the call-to-action slide lasts 4
  seconds, has the same frame size, the font size 60 and the colour yellow, so its font
  is larger than that of any benefit slide and its colour is another one.
\<close>

theorem slide_durations_and_sizes:
  "slides_of (timeline (final vc benefit_texts phone_number))
     = map (txt_clip vc) benefit_texts @ [cta_clip vc phone_number]
   \<and> map duration (map (txt_clip vc) benefit_texts) = replicate (length benefit_texts) (Some 3)
   \<and> map txt_size (map (txt_clip vc) benefit_texts)
       = replicate (length benefit_texts) (clip_size vc)
   \<and> map fontsize (map (txt_clip vc) benefit_texts) = replicate (length benefit_texts) 48
   \<and> map color (map (txt_clip vc) benefit_texts)
       = replicate (length benefit_texts) (str ''white'')
   \<and> duration (cta_clip vc phone_number) = Some 4
   \<and> txt_size (cta_clip vc phone_number) = clip_size vc
   \<and> fontsize (cta_clip vc phone_number) = 60
   \<and> color (cta_clip vc phone_number) = str ''yellow''
   \<and> fontsize (txt_clip vc t) < fontsize (cta_clip vc phone_number)
   \<and> color (txt_clip vc t) \<noteq> color (cta_clip vc phone_number)"
proof -
  have b: "duration (txt_clip vc t) = Some 3 \<and> txt_size (txt_clip vc t) = clip_size vc
           \<and> fontsize (txt_clip vc t) = 48 \<and> color (txt_clip vc t) = str ''white''" for t
    by (simp add: txt_clip_def set_position_def set_duration_def TextClip_def)
  have c: "duration (cta_clip vc phone_number) = Some 4
           \<and> txt_size (cta_clip vc phone_number) = clip_size vc
           \<and> fontsize (cta_clip vc phone_number) = 60
           \<and> color (cta_clip vc phone_number) = str ''yellow''"
    by (simp add: cta_clip_def set_position_def set_duration_def TextClip_def)
  have d: "str ''yellow'' \<noteq> str ''white''" by (simp add: str_def)
  have m: "map duration (map (txt_clip vc) bs) = replicate (length bs) (Some 3)
           \<and> map txt_size (map (txt_clip vc) bs) = replicate (length bs) (clip_size vc)
           \<and> map fontsize (map (txt_clip vc) bs) = replicate (length bs) 48
           \<and> map color (map (txt_clip vc) bs) = replicate (length bs) (str ''white'')" for bs
    by (induction bs) (simp_all add: b)
  have e: "fontsize (txt_clip vc t) < fontsize (cta_clip vc phone_number)
           \<and> color (txt_clip vc t) \<noteq> color (cta_clip vc phone_number)"
    using b [of t] c d by (simp add: eq_commute)
  show ?thesis
    using c e m [of benefit_texts] by (simp add: slides_of_final)
qed

text \<open>
  C6. The clip that is written is the concatenation of the talking-head clip and the
  slide sequence with its audio set to the audio of the talking-head clip. The slide
  sequence has no audio track of its own; after \<open>set_audio\<close> it carries exactly the
  track of the talking-head clip. The timeline is the talking-head clip followed by the
  slide sequence. The one call of the encoder that \<open>create_benefit_slides\<close> makes asks
  for 24 frames per second, whatever the arguments.
\<close>

theorem final_composition:
  "final vc benefit_texts phone_number
     = Concatenate [Video vc, SetAudio (slides_concat vc benefit_texts phone_number) (audio vc)]
         (str ''compose'')
   \<and> audio_tracks (slides_concat vc benefit_texts phone_number) = []
   \<and> audio_tracks (set_audio (audio vc) (slides_concat vc benefit_texts phone_number))
       = audio_tracks (Video vc)
   \<and> timeline (final vc benefit_texts phone_number)
       = timeline (Video vc) @ timeline (slides_concat vc benefit_texts phone_number)
   \<and> new_events w (snd (create_benefit_slides vc benefit_texts phone_number output_path w))
       = [VideoWrite output_path (final vc benefit_texts phone_number) 24]
   \<and> files (snd (create_benefit_slides vc benefit_texts phone_number output_path w)) output_path
       = Some (Encoded (final vc benefit_texts phone_number) 24)"
  by (simp add: audio_tracks_slides_concat create_benefit_slides_log create_benefit_slides_files
        new_events_def)
     (simp add: final_def concatenate_videoclips_def set_audio_def)

section \<open>Failures of the stages\<close>

text \<open>
  C3. When the speech service answers with a status other than 200, \<open>generate_audio\<close>
  raises a \<open>RuntimeError\<close> whose message holds the status code and the service's text,
  and the file system is as it was: no audio file is written. A run of \<open>generate_ad\<close>
  then ends with that error, and its events are the entry and the request only: the
  rendering process is not started, no video is opened and none is written.
\<close>

theorem tts_failure_aborts_run:
  "(status_code (requests_post ev w tts_url (tts_payload t)) \<noteq> 200 \<longrightarrow>
      generate_audio ev t output_path w =
        (Inl (RuntimeError
               (str ''ElevenLabs TTS failed: ''
                @ str_int (status_code (requests_post ev w tts_url (tts_payload t))) @ str '' ''
                @ resp_text (requests_post ev w tts_url (tts_payload t)))),
         emit (HttpPost tts_url (tts_payload t)) w)
      \<and> files (snd (generate_audio ev t output_path w)) = files w)
   \<and> (status_code (requests_post ev (emit (Call_generate_ad t b p) w) tts_url (tts_payload t)) \<noteq> 200 \<longrightarrow>
      fst (generate_ad ev t b p w) =
        Inl (RuntimeError
              (str ''ElevenLabs TTS failed: ''
               @ str_int (status_code (requests_post ev (emit (Call_generate_ad t b p) w) tts_url (tts_payload t)))
               @ str '' ''
               @ resp_text (requests_post ev (emit (Call_generate_ad t b p) w) tts_url (tts_payload t))))
      \<and> files (snd (generate_ad ev t b p w)) = files w
      \<and> new_events w (snd (generate_ad ev t b p w))
          = [Call_generate_ad t b p, HttpPost tts_url (tts_payload t)])"
proof (intro conjI impI)
  assume f: "status_code (requests_post ev w tts_url (tts_payload t)) \<noteq> 200"
  then show "generate_audio ev t output_path w =
        (Inl (RuntimeError
               (str ''ElevenLabs TTS failed: ''
                @ str_int (status_code (requests_post ev w tts_url (tts_payload t))) @ str '' ''
                @ resp_text (requests_post ev w tts_url (tts_payload t)))),
         emit (HttpPost tts_url (tts_payload t)) w)"
    by (rule generate_audio_fail)
  from f show "files (snd (generate_audio ev t output_path w)) = files w"
    by (simp add: generate_audio_fail files_emit)
next
  let ?w0 = "emit (Call_generate_ad t b p) w"
  assume f: "status_code (requests_post ev ?w0 tts_url (tts_payload t)) \<noteq> 200"
  have g: "generate_ad ev t b p w =
      (Inl (RuntimeError
              (str ''ElevenLabs TTS failed: ''
               @ str_int (status_code (requests_post ev ?w0 tts_url (tts_payload t)))
               @ str '' '' @ resp_text (requests_post ev ?w0 tts_url (tts_payload t)))),
       emit (HttpPost tts_url (tts_payload t)) ?w0)"
    unfolding generate_ad_def by (simp add: generate_audio_fail [OF f])
  show "fst (generate_ad ev t b p w) =
        Inl (RuntimeError
              (str ''ElevenLabs TTS failed: ''
               @ str_int (status_code (requests_post ev ?w0 tts_url (tts_payload t)))
               @ str '' ''
               @ resp_text (requests_post ev ?w0 tts_url (tts_payload t))))"
    by (simp add: g)
  show "files (snd (generate_ad ev t b p w)) = files w"
    by (simp add: g files_emit)
  show "new_events w (snd (generate_ad ev t b p w))
          = [Call_generate_ad t b p, HttpPost tts_url (tts_payload t)]"
    by (simp add: g new_events_def log_emit)
qed

text \<open>
  An instance: the service answers 401 \<open>Unauthorized\<close> to the request for
  \<open>Hello world\<close>; in a world with the checkpoint in place, the run for the prefix
  \<open>t1\<close> ends with that error after the entry and the request, and no audio file exists.
\<close>

theorem tts_failure_aborts_run_witness:
  "generate_audio failing_tts_env (str ''Hello world'') (audio_path (str ''t1'')) demo_world =
     (Inl (RuntimeError (str ''ElevenLabs TTS failed: 401 Unauthorized'')),
      emit (HttpPost tts_url (tts_payload (str ''Hello world''))) demo_world)
   \<and> files (snd (generate_audio failing_tts_env (str ''Hello world'') (audio_path (str ''t1'')) demo_world))
        (audio_path (str ''t1'')) = None
   \<and> fst (generate_ad failing_tts_env (str ''Hello world'') [str ''A'', str ''B''] (str ''t1'') demo_world)
       = Inl (RuntimeError (str ''ElevenLabs TTS failed: 401 Unauthorized''))
   \<and> new_events demo_world
        (snd (generate_ad failing_tts_env (str ''Hello world'') [str ''A'', str ''B''] (str ''t1'') demo_world))
       = [Call_generate_ad (str ''Hello world'') [str ''A'', str ''B''] (str ''t1''),
          HttpPost tts_url (tts_payload (str ''Hello world''))]"
proof -
  have s: "status_code (requests_post failing_tts_env w tts_url (tts_payload t)) \<noteq> 200" for w t
    by (simp add: failing_tts_env_def)
  have m: "str ''ElevenLabs TTS failed: '' @ str_int 401 @ str '' '' @ str ''Unauthorized''
           = str ''ElevenLabs TTS failed: 401 Unauthorized''"
    by (simp add: str_def str_int_def)
  have r: "requests_post failing_tts_env w u pl
           = \<lparr>status_code = 401, content = [], resp_text = str ''Unauthorized''\<rparr>" for w u pl
    by (simp add: failing_tts_env_def)
  have n: "files demo_world (audio_path (str ''t1'')) = None"
    by (simp add: demo_world_def files_def resolve_def checkpoint_def audio_path_def
        os_path_join_def join_step_def WAV2LIP_PATH_def OUTPUT_DIR_def str_def)
  show ?thesis
    using tts_failure_aborts_run [of failing_tts_env demo_world "str ''Hello world''"
        "audio_path (str ''t1'')" "[str ''A'', str ''B'']" "str ''t1''"] s
    by (simp add: r m n files_emit)
qed

text \<open>
  C4. When no file exists at the checkpoint's path, \<open>generate_lip_synced_video\<close>
  raises \<open>FileNotFoundError\<close>; its only event is the look-up of the checkpoint and the
  file system is untouched. The log of the call holds a start of the rendering process
  exactly when the checkpoint exists.
\<close>

theorem missing_checkpoint_fails_before_spawn:
  "(files w checkpoint = None \<longrightarrow>
      generate_lip_synced_video ev a i out w =
        (Inl (FileNotFoundError (str ''Place wav2lip_gan.pth into Wav2Lip/checkpoints/ first.'')),
         emit (PathExists checkpoint) w)
      \<and> new_events w (snd (generate_lip_synced_video ev a i out w))
          = [PathExists checkpoint]
      \<and> files (snd (generate_lip_synced_video ev a i out w)) = files w)
   \<and> ((\<exists>cmd. SubprocessRun cmd
              \<in> set (new_events w (snd (generate_lip_synced_video ev a i out w))))
        = (files w checkpoint \<noteq> None))"
proof (cases "files w checkpoint = None")
  case True
  then show ?thesis
    by (simp add: lip_sync_missing new_events_emit files_emit)
next
  case False
  then have "SubprocessRun (wav2lip_cmd a i out)
      \<in> set (new_events w (snd (generate_lip_synced_video ev a i out w)))"
    by (simp add: lip_sync_run new_events_def)
  with False show ?thesis by blast
qed

text \<open>
  Instances: in a world without any file the call fails after the look-up alone; in a
  world with the checkpoint the rendering process is started.
\<close>

theorem missing_checkpoint_fails_before_spawn_witness:
  "files bare_world checkpoint = None
   \<and> generate_lip_synced_video demo_env (audio_path (str ''t1'')) SPOKESPERSON_IMAGE
        (lip_video_path (str ''t1'')) bare_world
       = (Inl (FileNotFoundError (str ''Place wav2lip_gan.pth into Wav2Lip/checkpoints/ first.'')),
          \<lparr>store = Map.empty, log = [PathExists checkpoint]\<rparr>)
   \<and> files demo_world checkpoint \<noteq> None
   \<and> (\<exists>cmd. SubprocessRun cmd
         \<in> set (new_events demo_world
                  (snd (generate_lip_synced_video demo_env (audio_path (str ''t1''))
                          SPOKESPERSON_IMAGE (lip_video_path (str ''t1'')) demo_world))))"
proof -
  have a: "files bare_world checkpoint = None"
    by (simp add: bare_world_def files_def)
  note b = demo_world_checkpoint
  have c: "emit (PathExists checkpoint) bare_world = \<lparr>store = Map.empty, log = [PathExists checkpoint]\<rparr>"
    by (simp add: emit_def bare_world_def)
  show ?thesis
    using missing_checkpoint_fails_before_spawn [of bare_world demo_env "audio_path (str ''t1'')"
        SPOKESPERSON_IMAGE "lip_video_path (str ''t1'')"]
      missing_checkpoint_fails_before_spawn [of demo_world demo_env "audio_path (str ''t1'')"
        SPOKESPERSON_IMAGE "lip_video_path (str ''t1'')"]
      a b c
    by simp
qed

text \<open>
  C8, as stated, does not hold: nothing in the program checks the narration text. With a
  speech service that answers 200, a run with the empty narration succeeds, and its second
  event is the request for the empty text; the same happens through the menu's custom
  entry when the operator enters an empty script.
\<close>

theorem empty_narration_counterexample:
  "fst (generate_ad demo_env [] [str ''A'', str ''B''] (str ''t1'') demo_world) = Inr ()
   \<and> take 2 (log (snd (generate_ad demo_env [] [str ''A'', str ''B''] (str ''t1'') demo_world)))
       = [Call_generate_ad [] [str ''A'', str ''B''] (str ''t1''), HttpPost tts_url (tts_payload [])]
   \<and> payload_text (tts_payload []) = []
   \<and> fst (main demo_env [str ''3'', [], str ''A,B'', str ''4''] demo_world) = Inr ()
   \<and> take 2 (log (snd (main demo_env [str ''3'', [], str ''A,B'', str ''4''] demo_world)))
       = [Call_generate_ad [] [str ''A'', str ''B''] (str ''custom_ad''),
          HttpPost tts_url (tts_payload [])]"
proof -
  note ck = demo_world_checkpoint
  have l0: "log demo_world = []"
    by (simp add: demo_world_def)
  have cb: "custom_benefit_list (str ''A,B'') = [str ''A'', str ''B'']"
    by (simp add: custom_benefit_list_def split_comma_def str_def strip_def isspace_def)
  have st: "strip [] = []"
    by (simp add: strip_def)
  note d = demo_run [OF ck, of "[]" "[str ''A'', str ''B'']"]
  have f: "fst (generate_ad demo_env [] [str ''A'', str ''B''] p demo_world) = Inr ()" for p
    using d [of p] by simp
  have m: "main demo_env [str ''3'', [], str ''A,B'', str ''4''] demo_world
      = (Inr (), snd (generate_ad demo_env [] [str ''A'', str ''B''] (str ''custom_ad'') demo_world))"
    by (simp only: main_choice_3 [OF stripped_choices(3)] cb st run_ok_continue [OF f]
        main_choice_4 [OF stripped_choices(4)])
  have l: "take 2 (log (snd (generate_ad demo_env [] [str ''A'', str ''B''] p demo_world)))
      = [Call_generate_ad [] [str ''A'', str ''B''] p, HttpPost tts_url (tts_payload [])]" for p
    using d [of p] by (simp add: l0 pipeline_events_def)
  have e: "payload_text (tts_payload []) = []"
    by (simp add: tts_payload_def)
  show ?thesis
    by (simp only: m l f e fst_conv snd_conv simp_thms)
qed

text \<open>
  C8, amended. For every narration text, the empty one included, the first thing
  \<open>generate_audio\<close> does is to send the text as it is to the speech service. A status
  other than 200 raises the \<open>RuntimeError\<close>; on 200 the audio file is opened, and the
  call returns the output path when that succeeds and raises an \<open>OSError\<close> when it
  does not. When the call returns the path, its events are the request and the writing of
  the file, and the file at the path holds the bytes of the response. A run of
  \<open>generate_ad\<close> always starts with its entry and that request; and the menu's
  custom entry enters \<open>generate_ad\<close> with the stripped script, whatever it is, so that
  the request carries the stripped script.
\<close>

theorem no_validation_of_narration:
  "take 1 (new_events w (snd (generate_audio ev t output_path w))) = [HttpPost tts_url (tts_payload t)]
   \<and> payload_text (tts_payload t) = t
   \<and> fst (generate_audio ev t output_path w)
       = (if status_code (requests_post ev w tts_url (tts_payload t)) = 200
          then (if open_wb ev (emit (HttpPost tts_url (tts_payload t)) w) output_path
                then Inr output_path else Inl (OSError output_path))
          else Inl (RuntimeError
                     (str ''ElevenLabs TTS failed: ''
                      @ str_int (status_code (requests_post ev w tts_url (tts_payload t)))
                      @ str '' '' @ resp_text (requests_post ev w tts_url (tts_payload t)))))
   \<and> (fst (generate_audio ev t output_path w) = Inr output_path \<longrightarrow>
        new_events w (snd (generate_audio ev t output_path w))
          = [HttpPost tts_url (tts_payload t),
             FileWrite output_path (content (requests_post ev w tts_url (tts_payload t)))]
        \<and> files (snd (generate_audio ev t output_path w)) output_path
            = Some (Bytes (content (requests_post ev w tts_url (tts_payload t)))))
   \<and> take 2 (new_events w (snd (generate_ad ev t b p w)))
       = [Call_generate_ad t b p, HttpPost tts_url (tts_payload t)]
   \<and> (strip l = str ''3'' \<longrightarrow>
        take 2 (new_events w (snd (main ev (l # custom # bullets # rest) w)))
          = [Call_generate_ad (strip custom) (custom_benefit_list bullets) (str ''custom_ad''),
             HttpPost tts_url (tts_payload (strip custom))])"
proof -
  have ad: "take 2 (new_events w (snd (generate_ad ev t b p w)))
       = [Call_generate_ad t b p, HttpPost tts_url (tts_payload t)]"
  proof -
    obtain c vc n where n: "2 \<le> n"
      and l: "log (snd (generate_ad ev t b p w)) = log w @ take n (pipeline_events t b p c vc)"
      using generate_ad_events [of ev t b p w] by blast
    show ?thesis
      using first_events [OF n, of t b p c vc "[]"] by (simp add: new_events_def l)
  qed
  have mn: "take 2 (new_events w (snd (main ev (l # custom # bullets # rest) w)))
          = [Call_generate_ad (strip custom) (custom_benefit_list bullets) (str ''custom_ad''),
             HttpPost tts_url (tts_payload (strip custom))]"
    if "strip l = str ''3''"
  proof -
    from custom_entry_events [OF that, of w ev custom bullets rest]
    obtain c vc n tl where "2 \<le> n"
      "new_events w (snd (main ev (l # custom # bullets # rest) w))
        = take n (pipeline_events (strip custom) (custom_benefit_list bullets) (str ''custom_ad'') c vc)
          @ tl"
      by blast
    then show ?thesis
      by (simp only: first_events)
  qed
  have au: "take 1 (new_events w (snd (generate_audio ev t output_path w))) = [HttpPost tts_url (tts_payload t)]
   \<and> fst (generate_audio ev t output_path w)
       = (if status_code (requests_post ev w tts_url (tts_payload t)) = 200
          then (if open_wb ev (emit (HttpPost tts_url (tts_payload t)) w) output_path
                then Inr output_path else Inl (OSError output_path))
          else Inl (RuntimeError
                     (str ''ElevenLabs TTS failed: ''
                      @ str_int (status_code (requests_post ev w tts_url (tts_payload t)))
                      @ str '' '' @ resp_text (requests_post ev w tts_url (tts_payload t)))))
   \<and> (fst (generate_audio ev t output_path w) = Inr output_path \<longrightarrow>
        new_events w (snd (generate_audio ev t output_path w))
          = [HttpPost tts_url (tts_payload t),
             FileWrite output_path (content (requests_post ev w tts_url (tts_payload t)))]
        \<and> files (snd (generate_audio ev t output_path w)) output_path
            = Some (Bytes (content (requests_post ev w tts_url (tts_payload t)))))"
  proof (cases "status_code (requests_post ev w tts_url (tts_payload t)) = 200")
    case False
    then show ?thesis
      by (simp add: generate_audio_fail new_events_def log_emit)
  next
    case ok: True
    show ?thesis
    proof (cases "open_wb ev (emit (HttpPost tts_url (tts_payload t)) w) output_path")
      case True
      with ok show ?thesis
        by (simp add: generate_audio_ok new_events_def log_emit log_write_file files_emit
            files_write_file)
    next
      case False
      with ok show ?thesis
        by (simp add: generate_audio_closed new_events_def log_emit)
    qed
  qed
  have "payload_text (tts_payload t) = t"
    by (simp add: tts_payload_def)
  with au ad mn show ?thesis by blast
qed

text \<open>
  An instance: the operator chooses 3 and enters two blanks as the script; the run is
  entered with the empty narration, and the request carries the empty text. In the world
  of the examples \<open>generate_audio\<close> for the empty text returns its path and leaves the
  four bytes of the response there.
\<close>

theorem no_validation_of_narration_witness:
  "strip (str ''3'') = str ''3''
   \<and> strip (str ''  '') = []
   \<and> take 2 (new_events demo_world
               (snd (main demo_env [str ''3'', str ''  '', str ''A,B'', str ''4''] demo_world)))
       = [Call_generate_ad [] [str ''A'', str ''B''] (str ''custom_ad''),
          HttpPost tts_url (tts_payload [])]
   \<and> fst (generate_audio demo_env [] (audio_path (str ''t1'')) demo_world)
       = Inr (audio_path (str ''t1''))
   \<and> files (snd (generate_audio demo_env [] (audio_path (str ''t1'')) demo_world))
        (audio_path (str ''t1'')) = Some (Bytes [82, 73, 70, 70])"
proof -
  have s: "strip (str ''3'') = str ''3''" "strip (str ''  '') = []"
    by (simp_all add: strip_def str_def isspace_def)
  have cb: "custom_benefit_list (str ''A,B'') = [str ''A'', str ''B'']"
    by (simp add: custom_benefit_list_def split_comma_def str_def strip_def isspace_def)
  have r: "requests_post demo_env w u pl
      = \<lparr>status_code = 200, content = [82, 73, 70, 70], resp_text = []\<rparr>" for w u pl
    by (simp add: demo_env_def)
  have o: "open_wb demo_env w pth" for w pth
    by (simp add: demo_env_def)
  note t = no_validation_of_narration [of demo_world demo_env "[]" "audio_path (str ''t1'')"
      "[]" "[]" "str ''3''" "str ''  ''" "str ''A,B''" "[str ''4'']"]
  from t s cb show ?thesis
    by (simp add: r o)
qed

section \<open>The menu\<close>

text \<open>
  C9. Every video that a run of \<open>generate_ad\<close> writes, whatever its arguments, and
  every video that the menu loop writes, whatever the operator types, is the clip
  \<open>final\<close> built with the phone number \<open>(561) 576-0801\<close>, and the text of the
  slide that closes it is \<open>Call Now: (561) 576-0801\<close>.
\<close>

theorem cta_phone_number_is_fixed:
  "(\<forall>path c fps.
      VideoWrite path c fps \<in> set (new_events w (snd (generate_ad ev t b p w))) \<longrightarrow>
        (\<exists>vc. c = final vc b (str ''(561) 576-0801''))
        \<and> closing_slide_text c = Some (str ''Call Now: (561) 576-0801''))
   \<and> (\<forall>path c fps.
      VideoWrite path c fps \<in> set (new_events w (snd (main ev ls w))) \<longrightarrow>
        (\<exists>vc bs. c = final vc bs (str ''(561) 576-0801''))
        \<and> closing_slide_text c = Some (str ''Call Now: (561) 576-0801''))"
proof -
  let ?P = "\<lambda>e. \<forall>path c fps. e = VideoWrite path c fps \<longrightarrow>
        (\<exists>vc bs. c = final vc bs (str ''(561) 576-0801''))
        \<and> closing_slide_text c = Some (str ''Call Now: (561) 576-0801'')"
  have pe: "?P e" if mem: "e \<in> set (pipeline_events t' b' p' cn vc)" for e t' b' p' cn vc
  proof (intro allI impI)
    fix path c fps
    assume "e = VideoWrite path c fps"
    with mem have "c = final vc b' (str ''(561) 576-0801'')"
      using video_write_in_pipeline by blast
    then show "(\<exists>vc bs. c = final vc bs (str ''(561) 576-0801''))
        \<and> closing_slide_text c = Some (str ''Call Now: (561) 576-0801'')"
      by (auto simp: closing_text_final cta_text_literal)
  qed
  have "\<exists>evs. log (snd (main ev ls w)) = log w @ evs \<and> (\<forall>e\<in>set evs. ?P e)"
    by (rule main_events) (erule pe)+
  then have m: "\<forall>e\<in>set (new_events w (snd (main ev ls w))). ?P e"
    by (auto simp: new_events_def)
  obtain cn vc n where
    "log (snd (generate_ad ev t b p w)) = log w @ take n (pipeline_events t b p cn vc)"
    using generate_ad_events [of ev t b p w] by blast
  then have g: "set (new_events w (snd (generate_ad ev t b p w))) \<subseteq> set (pipeline_events t b p cn vc)"
    by (simp add: new_events_def set_take_subset)
  have "(\<exists>vc. c = final vc b (str ''(561) 576-0801''))
        \<and> closing_slide_text c = Some (str ''Call Now: (561) 576-0801'')"
    if "VideoWrite path c fps \<in> set (new_events w (snd (generate_ad ev t b p w)))" for path c fps
  proof -
    from that g have "c = final vc b (str ''(561) 576-0801'')"
      using video_write_in_pipeline by blast
    then show ?thesis
      by (auto simp: closing_text_final cta_text_literal)
  qed
  with m show ?thesis by blast
qed

text \<open>
  An instance: the operator chooses 1 and then 4; the log then holds the writing of the
  final video of the ACA ad, and its closing slide has the text above.
\<close>

theorem cta_phone_number_is_fixed_witness:
  "VideoWrite (final_output (str ''aca_ad''))
       (final (demo_clip (lip_video_path (str ''aca_ad''))) ACA_BENEFITS (str ''(561) 576-0801'')) 24
     \<in> set (new_events demo_world (snd (main demo_env [str ''1'', str ''4''] demo_world)))
   \<and> closing_slide_text
        (final (demo_clip (lip_video_path (str ''aca_ad''))) ACA_BENEFITS (str ''(561) 576-0801''))
       = Some (str ''Call Now: (561) 576-0801'')"
proof -
  have "new_events demo_world (snd (main demo_env [str ''1'', str ''4''] demo_world))
      = pipeline_events ACA_TEMPLATE ACA_BENEFITS (str ''aca_ad'') [82, 73, 70, 70]
           (demo_clip (lip_video_path (str ''aca_ad'')))"
    using demo_main_1_4 by (simp add: new_events_def demo_world_def)
  then have i: "VideoWrite (final_output (str ''aca_ad''))
       (final (demo_clip (lip_video_path (str ''aca_ad''))) ACA_BENEFITS (str ''(561) 576-0801'')) 24
     \<in> set (new_events demo_world (snd (main demo_env [str ''1'', str ''4''] demo_world)))"
    by (simp add: pipeline_events_def)
  with cta_phone_number_is_fixed [of demo_world demo_env "[]" "[]" "[]" "[str ''1'', str ''4'']"]
  show ?thesis by blast
qed

text \<open>
  C2, as stated, does not hold for the pipeline and the composer: with an empty benefit
  list a run succeeds and the video it writes is the talking-head clip followed by the
  call-to-action slide alone; the only slide text is that of the call to action.
\<close>

theorem cta_only_counterexample:
  "fst (generate_ad demo_env (str ''Hello world'') [] (str ''t1'') demo_world) = Inr ()
   \<and> files (snd (generate_ad demo_env (str ''Hello world'') [] (str ''t1'') demo_world))
        (final_output (str ''t1''))
       = Some (Encoded (final (demo_clip (lip_video_path (str ''t1''))) [] (str ''(561) 576-0801'')) 24)
   \<and> timeline (final (demo_clip (lip_video_path (str ''t1''))) [] (str ''(561) 576-0801''))
       = [TalkingHead (demo_clip (lip_video_path (str ''t1''))),
          Slide (cta_clip (demo_clip (lip_video_path (str ''t1''))) (str ''(561) 576-0801''))]
   \<and> map clip_text (slides_of (timeline
         (final (demo_clip (lip_video_path (str ''t1''))) [] (str ''(561) 576-0801''))))
       = [str ''Call Now: (561) 576-0801'']"
proof -
  note ck = demo_world_checkpoint
  have x: "map clip_text (slides_of (timeline
         (final (demo_clip (lip_video_path (str ''t1''))) [] (str ''(561) 576-0801''))))
       = [str ''Call Now: (561) 576-0801'']"
    by (simp only: slide_texts_final cta_literal append_Nil)
  have y: "timeline (final (demo_clip (lip_video_path (str ''t1''))) [] (str ''(561) 576-0801''))
       = [TalkingHead (demo_clip (lip_video_path (str ''t1''))),
          Slide (cta_clip (demo_clip (lip_video_path (str ''t1''))) (str ''(561) 576-0801''))]"
    by (simp add: timeline_final)
  from demo_run [OF ck, of "str ''Hello world''" "[]" "str ''t1''"] x y show ?thesis
    by blast
qed

text \<open>
  C2, amended. The default pair is substituted by the menu's custom entry, not by the
  pipeline or the composer. The custom entry enters \<open>generate_ad\<close> with
  \<open>custom_benefit_list\<close> of the line of bullets it read; that list is the default pair
  (\<open>Affordable Coverage Available\<close>, \<open>Call Now: (561) 576-0801\<close>) when every
  comma-separated piece is empty after stripping, and the stripped non-empty pieces
  otherwise, so it is never empty. \<open>generate_ad\<close> hands its benefit list on unchanged:
  the slide texts of every video it writes are its benefit list followed by the call to
  action. Every entry into \<open>generate_ad\<close> that the menu loop logs has a non-empty
  benefit list, and every video the menu loop writes belongs to a logged entry with a
  non-empty benefit list whose texts are the video's slide texts before the call to
  action. The composer itself shows exactly the benefit texts it is given.
\<close>

theorem fallback_is_in_the_menu:
  "(strip l = str ''3'' \<longrightarrow>
      take 1 (new_events w (snd (main ev (l # custom # bullets # rest) w)))
        = [Call_generate_ad (strip custom) (custom_benefit_list bullets) (str ''custom_ad'')])
   \<and> custom_benefit_list line
       = (if list_all (\<lambda>b. strip b = []) (split_comma line) then DEFAULT_BENEFITS
          else map strip (filter (\<lambda>b. strip b \<noteq> []) (split_comma line)))
   \<and> custom_benefit_list line \<noteq> []
   \<and> DEFAULT_BENEFITS = [str ''Affordable Coverage Available'', str ''Call Now: (561) 576-0801'']
   \<and> (\<forall>path c fps.
        VideoWrite path c fps \<in> set (new_events w (snd (generate_ad ev t b p w))) \<longrightarrow>
          (\<exists>vc. c = final vc b (str ''(561) 576-0801''))
          \<and> map clip_text (slides_of (timeline c)) = b @ [str ''Call Now: (561) 576-0801''])
   \<and> (\<forall>t b p. Call_generate_ad t b p \<in> set (new_events w (snd (main ev ls w))) \<longrightarrow> b \<noteq> [])
   \<and> (\<forall>path c fps.
        VideoWrite path c fps \<in> set (new_events w (snd (main ev ls w))) \<longrightarrow>
          (\<exists>t b p. Call_generate_ad t b p \<in> set (new_events w (snd (main ev ls w)))
             \<and> b \<noteq> []
             \<and> (\<exists>vc. c = final vc b (str ''(561) 576-0801''))
             \<and> map clip_text (slides_of (timeline c)) = b @ [str ''Call Now: (561) 576-0801'']))
   \<and> map clip_text (slides_of (timeline (final vc benefit_texts phone_number)))
       = benefit_texts @ [str ''Call Now: '' @ phone_number]"
proof -
  have texts: "map clip_text (slides_of (timeline (final vc' b' (str ''(561) 576-0801''))))
      = b' @ [str ''Call Now: (561) 576-0801'']" for vc' b'
    by (simp add: slide_texts_final cta_literal)
  have first: "take 1 (new_events w (snd (main ev (l # custom # bullets # rest) w)))
        = [Call_generate_ad (strip custom) (custom_benefit_list bullets) (str ''custom_ad'')]"
    if "strip l = str ''3''"
  proof -
    from custom_entry_events [OF that, of w ev custom bullets rest]
    obtain c vc n tl where n: "2 \<le> n" and e:
      "new_events w (snd (main ev (l # custom # bullets # rest) w))
        = take n (pipeline_events (strip custom) (custom_benefit_list bullets) (str ''custom_ad'') c vc)
          @ tl"
      by blast
    have "take 1 (take 2 (new_events w (snd (main ev (l # custom # bullets # rest) w))))
        = [Call_generate_ad (strip custom) (custom_benefit_list bullets) (str ''custom_ad'')]"
      unfolding e first_events [OF n] by simp
    then show ?thesis by simp
  qed
  have gen: "(\<exists>vc. c = final vc b (str ''(561) 576-0801''))
          \<and> map clip_text (slides_of (timeline c)) = b @ [str ''Call Now: (561) 576-0801'']"
    if "VideoWrite path c fps \<in> set (new_events w (snd (generate_ad ev t b p w)))" for path c fps
  proof -
    obtain cn vc n where
      "log (snd (generate_ad ev t b p w)) = log w @ take n (pipeline_events t b p cn vc)"
      using generate_ad_events [of ev t b p w] by blast
    with that have "VideoWrite path c fps \<in> set (take n (pipeline_events t b p cn vc))"
      by (simp add: new_events_def)
    then have "c = final vc b (str ''(561) 576-0801'')"
      by (rule video_write_in_run)
    then show ?thesis
      using texts [of vc b] by blast
  qed
  let ?Q = "\<lambda>r. (\<forall>t b p. Call_generate_ad t b p \<in> set r \<longrightarrow> b \<noteq> [])
      \<and> (\<forall>path c fps. VideoWrite path c fps \<in> set r \<longrightarrow>
           (\<exists>t b p. Call_generate_ad t b p \<in> set r \<and> b \<noteq> []
              \<and> (\<exists>vc. c = final vc b (str ''(561) 576-0801''))
              \<and> map clip_text (slides_of (timeline c)) = b @ [str ''Call Now: (561) 576-0801'']))"
  have q: "?Q (take n (pipeline_events t' b' p' cn vc'))" if n: "2 \<le> n" and ne: "b' \<noteq> []"
    for n t' b' p' cn vc'
  proof (intro conjI allI impI)
    fix t b p
    assume "Call_generate_ad t b p \<in> set (take n (pipeline_events t' b' p' cn vc'))"
    with ne show "b \<noteq> []"
      using call_in_run_only by blast
  next
    fix path c fps
    assume "VideoWrite path c fps \<in> set (take n (pipeline_events t' b' p' cn vc'))"
    then have "c = final vc' b' (str ''(561) 576-0801'')"
      by (rule video_write_in_run)
    with ne call_in_run [OF n, of t' b' p' cn vc'] texts [of vc' b']
    show "\<exists>t b p. Call_generate_ad t b p \<in> set (take n (pipeline_events t' b' p' cn vc'))
        \<and> b \<noteq> [] \<and> (\<exists>vc. c = final vc b (str ''(561) 576-0801''))
        \<and> map clip_text (slides_of (timeline c)) = b @ [str ''Call Now: (561) 576-0801'']"
      by blast
  qed
  have aca: "ACA_BENEFITS \<noteq> []" and fe: "FE_BENEFITS \<noteq> []"
    by (simp_all add: ACA_BENEFITS_def FE_BENEFITS_def)
  have "\<exists>runs. log (snd (main ev ls w)) = log w @ concat runs \<and> (\<forall>r\<in>set runs. ?Q r)"
  proof (rule main_runs)
    show "?Q (take n (pipeline_events ACA_TEMPLATE ACA_BENEFITS (str ''aca_ad'') c vc))"
      if "2 \<le> n" for c vc n
      using that aca by (rule q)
    show "?Q (take n (pipeline_events FE_TEMPLATE FE_BENEFITS (str ''fe_ad'') c vc))"
      if "2 \<le> n" for c vc n
      using that fe by (rule q)
    show "?Q (take n (pipeline_events (strip custom) (custom_benefit_list bullets)
                        (str ''custom_ad'') c vc))"
      if "2 \<le> n" for custom bullets c vc n
      using that custom_benefit_list_nonempty by (rule q)
  qed
  then obtain runs where r: "new_events w (snd (main ev ls w)) = concat runs"
    "\<forall>r\<in>set runs. ?Q r"
    by (auto simp: new_events_def)
  have m1: "\<forall>t b p. Call_generate_ad t b p \<in> set (new_events w (snd (main ev ls w))) \<longrightarrow> b \<noteq> []"
    unfolding r(1) using r(2) by auto
  have m2: "\<forall>path c fps.
        VideoWrite path c fps \<in> set (new_events w (snd (main ev ls w))) \<longrightarrow>
          (\<exists>t b p. Call_generate_ad t b p \<in> set (new_events w (snd (main ev ls w)))
             \<and> b \<noteq> []
             \<and> (\<exists>vc. c = final vc b (str ''(561) 576-0801''))
             \<and> map clip_text (slides_of (timeline c)) = b @ [str ''Call Now: (561) 576-0801''])"
  proof (intro allI impI)
    fix path c fps
    assume "VideoWrite path c fps \<in> set (new_events w (snd (main ev ls w)))"
    then obtain r where rr: "r \<in> set runs" "VideoWrite path c fps \<in> set r"
      unfolding r(1) by auto
    with r(2) obtain t b p where "Call_generate_ad t b p \<in> set r" "b \<noteq> []"
      "\<exists>vc. c = final vc b (str ''(561) 576-0801'')"
      "map clip_text (slides_of (timeline c)) = b @ [str ''Call Now: (561) 576-0801'']"
      by blast
    moreover from this(1) rr(1) have "Call_generate_ad t b p \<in> set (concat runs)"
      by auto
    ultimately show "\<exists>t b p. Call_generate_ad t b p \<in> set (new_events w (snd (main ev ls w)))
             \<and> b \<noteq> []
             \<and> (\<exists>vc. c = final vc b (str ''(561) 576-0801''))
             \<and> map clip_text (slides_of (timeline c)) = b @ [str ''Call Now: (561) 576-0801'']"
      unfolding r(1) by blast
  qed
  have d: "DEFAULT_BENEFITS = [str ''Affordable Coverage Available'', str ''Call Now: (561) 576-0801'']"
    by (simp add: DEFAULT_BENEFITS_def)
  from first gen m1 m2 d show ?thesis
    using custom_benefit_list_cases [of line] custom_benefit_list_nonempty [of line]
      slide_texts_final [of vc benefit_texts phone_number]
    by blast
qed

text \<open>
  An instance: the operator chooses 3, enters the script \<open>Hi\<close> and the bullets
  \<open> , \<close> (nothing but blanks around a comma), then chooses 4. The run is entered with
  the default pair, and the video written has the two default texts and the call to action
  as its slide texts.
\<close>

theorem fallback_is_in_the_menu_witness:
  "strip (str ''3'') = str ''3''
   \<and> list_all (\<lambda>b. strip b = []) (split_comma (str '' , ''))
   \<and> custom_benefit_list (str '' , '') = DEFAULT_BENEFITS
   \<and> take 1 (new_events demo_world
        (snd (main demo_env [str ''3'', str ''Hi'', str '' , '', str ''4''] demo_world)))
       = [Call_generate_ad (str ''Hi'') DEFAULT_BENEFITS (str ''custom_ad'')]
   \<and> VideoWrite (final_output (str ''custom_ad''))
        (final (demo_clip (lip_video_path (str ''custom_ad''))) DEFAULT_BENEFITS
           (str ''(561) 576-0801'')) 24
       \<in> set (new_events demo_world
                (snd (main demo_env [str ''3'', str ''Hi'', str '' , '', str ''4''] demo_world)))
   \<and> map clip_text (slides_of (timeline
        (final (demo_clip (lip_video_path (str ''custom_ad''))) DEFAULT_BENEFITS
           (str ''(561) 576-0801''))))
       = [str ''Affordable Coverage Available'', str ''Call Now: (561) 576-0801'',
          str ''Call Now: (561) 576-0801'']"
proof -
  note ck = demo_world_checkpoint
  have l0: "log demo_world = []"
    by (simp add: demo_world_def)
  have s3: "strip (str ''3'') = str ''3''"
    by (rule stripped_choices)
  have sp: "list_all (\<lambda>b. strip b = []) (split_comma (str '' , ''))"
    by (simp add: split_comma_def str_def strip_def isspace_def)
  have st: "strip (str ''Hi'') = str ''Hi''"
    by (simp add: str_def strip_def isspace_def)
  note t = fallback_is_in_the_menu [of "str ''3''" demo_world demo_env "str ''Hi''" "str '' , ''"
      "[str ''4'']" "str '' , ''" "[]" "[]" "[]"
      "[str ''3'', str ''Hi'', str '' , '', str ''4'']"
      "demo_clip (lip_video_path (str ''custom_ad''))" DEFAULT_BENEFITS "str ''(561) 576-0801''"]
  from t sp have cb: "custom_benefit_list (str '' , '') = DEFAULT_BENEFITS"
    by simp
  from t s3 cb st have first: "take 1 (new_events demo_world
        (snd (main demo_env [str ''3'', str ''Hi'', str '' , '', str ''4''] demo_world)))
       = [Call_generate_ad (str ''Hi'') DEFAULT_BENEFITS (str ''custom_ad'')]"
    by simp
  note d = demo_run [OF ck, of "str ''Hi''" DEFAULT_BENEFITS "str ''custom_ad''"]
  have f: "fst (generate_ad demo_env (str ''Hi'') DEFAULT_BENEFITS (str ''custom_ad'') demo_world) = Inr ()"
    using d by simp
  have m: "main demo_env [str ''3'', str ''Hi'', str '' , '', str ''4''] demo_world
      = (Inr (), snd (generate_ad demo_env (str ''Hi'') DEFAULT_BENEFITS (str ''custom_ad'') demo_world))"
    by (simp only: main_choice_3 [OF s3] cb st run_ok_continue [OF f]
        main_choice_4 [OF stripped_choices(4)])
  have n: "new_events demo_world
        (snd (main demo_env [str ''3'', str ''Hi'', str '' , '', str ''4''] demo_world))
      = pipeline_events (str ''Hi'') DEFAULT_BENEFITS (str ''custom_ad'') [82, 73, 70, 70]
          (demo_clip (lip_video_path (str ''custom_ad'')))"
    using d by (simp only: m snd_conv new_events_def l0 append_Nil list.size drop_0)
  have i: "VideoWrite (final_output (str ''custom_ad''))
        (final (demo_clip (lip_video_path (str ''custom_ad''))) DEFAULT_BENEFITS
           (str ''(561) 576-0801'')) 24
       \<in> set (new_events demo_world
                (snd (main demo_env [str ''3'', str ''Hi'', str '' , '', str ''4''] demo_world)))"
    unfolding n by (simp add: pipeline_events_def)
  from t have "map clip_text (slides_of (timeline
        (final (demo_clip (lip_video_path (str ''custom_ad''))) DEFAULT_BENEFITS
           (str ''(561) 576-0801''))))
       = DEFAULT_BENEFITS @ [str ''Call Now: '' @ str ''(561) 576-0801'']"
    by blast
  then have x: "map clip_text (slides_of (timeline
        (final (demo_clip (lip_video_path (str ''custom_ad''))) DEFAULT_BENEFITS
           (str ''(561) 576-0801''))))
       = [str ''Affordable Coverage Available'', str ''Call Now: (561) 576-0801'',
          str ''Call Now: (561) 576-0801'']"
    by (simp add: DEFAULT_BENEFITS_def cta_literal)
  from s3 sp cb first i x show ?thesis
    by blast
qed

text \<open>
  C10. Every entry into \<open>generate_ad\<close> that the menu loop logs is the ACA template
  with the prefix \<open>aca_ad\<close>, the final-expense template with \<open>fe_ad\<close>, or a custom
  script with \<open>custom_ad\<close>. When the operator chooses the same option twice in a row,
  the events are those of a run for that option's prefix and, if that run succeeds, those
  of a second run for the same prefix (then whatever follows): the two runs go through
  the same artifact paths. Each stage replaces what is at its path: after
  \<open>generate_audio\<close> returns, the file at the audio path holds the bytes of this call's
  response; \<open>generate_lip_synced_video\<close> starts the renderer with the lip-sync path as
  its output file and the store afterwards is the one this renderer left; after a
  successful run the file at the final path is this run's video.
\<close>

theorem menu_prefixes_are_fixed:
  "(\<forall>t b p. Call_generate_ad t b p \<in> set (new_events w (snd (main ev ls w))) \<longrightarrow>
       p \<in> {str ''aca_ad'', str ''fe_ad'', str ''custom_ad''}
       \<and> ((t = ACA_TEMPLATE \<and> b = ACA_BENEFITS \<and> p = str ''aca_ad'')
          \<or> (t = FE_TEMPLATE \<and> b = FE_BENEFITS \<and> p = str ''fe_ad'')
          \<or> ((\<exists>custom. t = strip custom) \<and> (\<exists>bullets. b = custom_benefit_list bullets)
              \<and> p = str ''custom_ad'')))
   \<and> (strip l1 = str ''1'' \<and> strip l2 = str ''1'' \<longrightarrow>
        (\<exists>c1 vc1 n1 c2 vc2 n2 tl. 2 \<le> n1 \<and> n1 \<le> 7 \<and> 2 \<le> n2 \<and> n2 \<le> 7
           \<and> ((fst (generate_ad ev ACA_TEMPLATE ACA_BENEFITS (str ''aca_ad'') w) = Inr ()) = (n1 = 7))
           \<and> new_events w (snd (main ev (l1 # l2 # ls) w))
               = take n1 (pipeline_events ACA_TEMPLATE ACA_BENEFITS (str ''aca_ad'') c1 vc1)
                 @ (if n1 = 7
                    then take n2 (pipeline_events ACA_TEMPLATE ACA_BENEFITS (str ''aca_ad'') c2 vc2) @ tl
                    else [])))
   \<and> (strip l1 = str ''2'' \<and> strip l2 = str ''2'' \<longrightarrow>
        (\<exists>c1 vc1 n1 c2 vc2 n2 tl. 2 \<le> n1 \<and> n1 \<le> 7 \<and> 2 \<le> n2 \<and> n2 \<le> 7
           \<and> ((fst (generate_ad ev FE_TEMPLATE FE_BENEFITS (str ''fe_ad'') w) = Inr ()) = (n1 = 7))
           \<and> new_events w (snd (main ev (l1 # l2 # ls) w))
               = take n1 (pipeline_events FE_TEMPLATE FE_BENEFITS (str ''fe_ad'') c1 vc1)
                 @ (if n1 = 7
                    then take n2 (pipeline_events FE_TEMPLATE FE_BENEFITS (str ''fe_ad'') c2 vc2) @ tl
                    else [])))
   \<and> (strip l1 = str ''3'' \<and> strip l2 = str ''3'' \<longrightarrow>
        (\<exists>c1 vc1 n1 c2 vc2 n2 tl. 2 \<le> n1 \<and> n1 \<le> 7 \<and> 2 \<le> n2 \<and> n2 \<le> 7
           \<and> ((fst (generate_ad ev (strip custom1) (custom_benefit_list bullets1)
                      (str ''custom_ad'') w) = Inr ()) = (n1 = 7))
           \<and> new_events w (snd (main ev (l1 # custom1 # bullets1 # l2 # custom2 # bullets2 # ls) w))
               = take n1 (pipeline_events (strip custom1) (custom_benefit_list bullets1)
                            (str ''custom_ad'') c1 vc1)
                 @ (if n1 = 7
                    then take n2 (pipeline_events (strip custom2) (custom_benefit_list bullets2)
                                    (str ''custom_ad'') c2 vc2) @ tl
                    else [])))
   \<and> (fst (generate_audio ev t out w) = Inr out \<longrightarrow>
        files (snd (generate_audio ev t out w)) out
          = Some (Bytes (content (requests_post ev w tts_url (tts_payload t)))))
   \<and> (fst (generate_lip_synced_video ev a i out w) = Inr out \<longrightarrow>
        SubprocessRun (wav2lip_cmd a i out)
          \<in> set (new_events w (snd (generate_lip_synced_video ev a i out w)))
        \<and> store (snd (generate_lip_synced_video ev a i out w))
            = snd (subprocess_run ev (emit (PathExists checkpoint) w) (wav2lip_cmd a i out)))
   \<and> (fst (generate_ad ev t b p w) = Inr () \<longrightarrow>
        (\<exists>c vc. new_events w (snd (generate_ad ev t b p w)) = pipeline_events t b p c vc
           \<and> files (snd (generate_ad ev t b p w)) (final_output p)
               = Some (Encoded (final vc b (str ''(561) 576-0801'')) 24)))"
proof -
  let ?P = "\<lambda>e. \<forall>t b p. e = Call_generate_ad t b p \<longrightarrow>
       p \<in> {str ''aca_ad'', str ''fe_ad'', str ''custom_ad''}
       \<and> ((t = ACA_TEMPLATE \<and> b = ACA_BENEFITS \<and> p = str ''aca_ad'')
          \<or> (t = FE_TEMPLATE \<and> b = FE_BENEFITS \<and> p = str ''fe_ad'')
          \<or> ((\<exists>custom. t = strip custom) \<and> (\<exists>bullets. b = custom_benefit_list bullets)
              \<and> p = str ''custom_ad''))"
  have "\<exists>evs. log (snd (main ev ls w)) = log w @ evs \<and> (\<forall>e\<in>set evs. ?P e)"
    by (rule main_events) (auto dest: call_in_pipeline)
  then obtain evs where "new_events w (snd (main ev ls w)) = evs" "\<forall>e\<in>set evs. ?P e"
    by (auto simp: new_events_def)
  then have a: "\<forall>t b p. Call_generate_ad t b p \<in> set (new_events w (snd (main ev ls w))) \<longrightarrow>
       p \<in> {str ''aca_ad'', str ''fe_ad'', str ''custom_ad''}
       \<and> ((t = ACA_TEMPLATE \<and> b = ACA_BENEFITS \<and> p = str ''aca_ad'')
          \<or> (t = FE_TEMPLATE \<and> b = FE_BENEFITS \<and> p = str ''fe_ad'')
          \<or> ((\<exists>custom. t = strip custom) \<and> (\<exists>bullets. b = custom_benefit_list bullets)
              \<and> p = str ''custom_ad''))"
    by blast
  have r1: "\<exists>c1 vc1 n1 c2 vc2 n2 tl. 2 \<le> n1 \<and> n1 \<le> 7 \<and> 2 \<le> n2 \<and> n2 \<le> 7
           \<and> ((fst (generate_ad ev ACA_TEMPLATE ACA_BENEFITS (str ''aca_ad'') w) = Inr ()) = (n1 = 7))
           \<and> new_events w (snd (main ev (l1 # l2 # ls) w))
               = take n1 (pipeline_events ACA_TEMPLATE ACA_BENEFITS (str ''aca_ad'') c1 vc1)
                 @ (if n1 = 7
                    then take n2 (pipeline_events ACA_TEMPLATE ACA_BENEFITS (str ''aca_ad'') c2 vc2) @ tl
                    else [])"
    if "strip l1 = str ''1''" "strip l2 = str ''1''"
    by (rule two_runs) (rule main_choice_1 [OF that(1)], rule main_choice_1 [OF that(2)])
  have r2: "\<exists>c1 vc1 n1 c2 vc2 n2 tl. 2 \<le> n1 \<and> n1 \<le> 7 \<and> 2 \<le> n2 \<and> n2 \<le> 7
           \<and> ((fst (generate_ad ev FE_TEMPLATE FE_BENEFITS (str ''fe_ad'') w) = Inr ()) = (n1 = 7))
           \<and> new_events w (snd (main ev (l1 # l2 # ls) w))
               = take n1 (pipeline_events FE_TEMPLATE FE_BENEFITS (str ''fe_ad'') c1 vc1)
                 @ (if n1 = 7
                    then take n2 (pipeline_events FE_TEMPLATE FE_BENEFITS (str ''fe_ad'') c2 vc2) @ tl
                    else [])"
    if "strip l1 = str ''2''" "strip l2 = str ''2''"
    by (rule two_runs) (rule main_choice_2 [OF that(1)], rule main_choice_2 [OF that(2)])
  have r3: "\<exists>c1 vc1 n1 c2 vc2 n2 tl. 2 \<le> n1 \<and> n1 \<le> 7 \<and> 2 \<le> n2 \<and> n2 \<le> 7
           \<and> ((fst (generate_ad ev (strip custom1) (custom_benefit_list bullets1)
                      (str ''custom_ad'') w) = Inr ()) = (n1 = 7))
           \<and> new_events w (snd (main ev (l1 # custom1 # bullets1 # l2 # custom2 # bullets2 # ls) w))
               = take n1 (pipeline_events (strip custom1) (custom_benefit_list bullets1)
                            (str ''custom_ad'') c1 vc1)
                 @ (if n1 = 7
                    then take n2 (pipeline_events (strip custom2) (custom_benefit_list bullets2)
                                    (str ''custom_ad'') c2 vc2) @ tl
                    else [])"
    if "strip l1 = str ''3''" "strip l2 = str ''3''"
    by (rule two_runs) (rule main_choice_3 [OF that(1)], rule main_choice_3 [OF that(2)])
  have au: "files (snd (generate_audio ev t out w)) out
          = Some (Bytes (content (requests_post ev w tts_url (tts_payload t))))"
    if "fst (generate_audio ev t out w) = Inr out"
  proof (cases "status_code (requests_post ev w tts_url (tts_payload t)) = 200")
    case False
    with that show ?thesis by (simp add: generate_audio_fail)
  next
    case ok: True
    show ?thesis
    proof (cases "open_wb ev (emit (HttpPost tts_url (tts_payload t)) w) out")
      case True
      with ok show ?thesis
        by (simp add: generate_audio_ok files_emit files_write_file)
    next
      case False
      with ok that show ?thesis by (simp add: generate_audio_closed)
    qed
  qed
  have lp: "SubprocessRun (wav2lip_cmd a i out)
          \<in> set (new_events w (snd (generate_lip_synced_video ev a i out w)))
        \<and> store (snd (generate_lip_synced_video ev a i out w))
            = snd (subprocess_run ev (emit (PathExists checkpoint) w) (wav2lip_cmd a i out))"
    if "fst (generate_lip_synced_video ev a i out w) = Inr out"
  proof (cases "files w checkpoint = None")
    case True
    with that show ?thesis by (simp add: lip_sync_missing)
  next
    case False
    then show ?thesis by (simp add: lip_sync_run new_events_def)
  qed
  from a r1 r2 r3 au lp successful_run [of ev t b p w] show ?thesis
    by blast
qed

text \<open>
  An instance: the operator chooses 1, 1 and 4. The log is the events of two complete runs
  for the prefix \<open>aca_ad\<close>, the final path holds the second run's video, and the
  audio stage of the second run leaves its own bytes at the audio path.
\<close>

theorem menu_prefixes_are_fixed_witness:
  "strip (str ''1'') = str ''1''
   \<and> fst (generate_ad demo_env ACA_TEMPLATE ACA_BENEFITS (str ''aca_ad'') demo_world) = Inr ()
   \<and> new_events demo_world (snd (main demo_env [str ''1'', str ''1'', str ''4''] demo_world))
       = pipeline_events ACA_TEMPLATE ACA_BENEFITS (str ''aca_ad'') [82, 73, 70, 70]
           (demo_clip (lip_video_path (str ''aca_ad'')))
         @ pipeline_events ACA_TEMPLATE ACA_BENEFITS (str ''aca_ad'') [82, 73, 70, 70]
           (demo_clip (lip_video_path (str ''aca_ad'')))
   \<and> Call_generate_ad ACA_TEMPLATE ACA_BENEFITS (str ''aca_ad'')
       \<in> set (new_events demo_world (snd (main demo_env [str ''1'', str ''1'', str ''4''] demo_world)))
   \<and> str ''aca_ad'' \<in> {str ''aca_ad'', str ''fe_ad'', str ''custom_ad''}
   \<and> files (snd (main demo_env [str ''1'', str ''1'', str ''4''] demo_world))
        (final_output (str ''aca_ad''))
       = Some (Encoded (final (demo_clip (lip_video_path (str ''aca_ad''))) ACA_BENEFITS
                          (str ''(561) 576-0801'')) 24)
   \<and> fst (generate_audio demo_env ACA_TEMPLATE (audio_path (str ''aca_ad''))
            (snd (generate_ad demo_env ACA_TEMPLATE ACA_BENEFITS (str ''aca_ad'') demo_world)))
       = Inr (audio_path (str ''aca_ad''))
   \<and> files (snd (generate_audio demo_env ACA_TEMPLATE (audio_path (str ''aca_ad''))
                   (snd (generate_ad demo_env ACA_TEMPLATE ACA_BENEFITS (str ''aca_ad'') demo_world))))
        (audio_path (str ''aca_ad''))
       = Some (Bytes [82, 73, 70, 70])"
proof -
  let ?w1 = "snd (generate_ad demo_env ACA_TEMPLATE ACA_BENEFITS (str ''aca_ad'') demo_world)"
  note d1 = demo_run [OF demo_world_checkpoint, of ACA_TEMPLATE ACA_BENEFITS "str ''aca_ad''"]
  have f1: "fst (generate_ad demo_env ACA_TEMPLATE ACA_BENEFITS (str ''aca_ad'') demo_world) = Inr ()"
    using d1 by simp
  have ga: "fst (generate_audio demo_env ACA_TEMPLATE (audio_path (str ''aca_ad'')) ?w1)
       = Inr (audio_path (str ''aca_ad''))"
    by (simp add: generate_audio_ok demo_env_def)
  have r: "content (requests_post demo_env ?w1 tts_url (tts_payload ACA_TEMPLATE)) = [82, 73, 70, 70]"
    by (simp add: demo_env_def)
  note t1 = menu_prefixes_are_fixed [where w = demo_world and ev = demo_env
      and ls = "[str ''1'', str ''1'', str ''4'']" and ?l1.0 = "[]" and ?l2.0 = "[]"
      and ?custom1.0 = "[]" and ?bullets1.0 = "[]" and ?custom2.0 = "[]" and ?bullets2.0 = "[]"
      and t = "[]" and out = "[]" and a = "[]" and i = "[]" and b = "[]" and p = "[]"]
  note t2 = menu_prefixes_are_fixed [where w = ?w1 and ev = demo_env
      and ls = "[]" and ?l1.0 = "[]" and ?l2.0 = "[]"
      and ?custom1.0 = "[]" and ?bullets1.0 = "[]" and ?custom2.0 = "[]" and ?bullets2.0 = "[]"
      and t = ACA_TEMPLATE and out = "audio_path (str ''aca_ad'')"
      and a = "[]" and i = "[]" and b = "[]" and p = "[]"]
  from t2 have "fst (generate_audio demo_env ACA_TEMPLATE (audio_path (str ''aca_ad'')) ?w1)
        = Inr (audio_path (str ''aca_ad'')) \<longrightarrow>
      files (snd (generate_audio demo_env ACA_TEMPLATE (audio_path (str ''aca_ad'')) ?w1))
        (audio_path (str ''aca_ad''))
        = Some (Bytes (content (requests_post demo_env ?w1 tts_url (tts_payload ACA_TEMPLATE))))"
    by (elim conjE)
  with ga have au: "files (snd (generate_audio demo_env ACA_TEMPLATE (audio_path (str ''aca_ad'')) ?w1))
        (audio_path (str ''aca_ad'')) = Some (Bytes [82, 73, 70, 70])"
    unfolding r by (rule rev_mp)
  have i: "Call_generate_ad ACA_TEMPLATE ACA_BENEFITS (str ''aca_ad'')
       \<in> set (new_events demo_world (snd (main demo_env [str ''1'', str ''1'', str ''4''] demo_world)))"
    unfolding demo_main_1_1_4 [THEN conjunct2, THEN conjunct1]
    by (simp add: pipeline_events_def)
  from t1 have "\<forall>t b p. Call_generate_ad t b p
        \<in> set (new_events demo_world (snd (main demo_env [str ''1'', str ''1'', str ''4''] demo_world)))
      \<longrightarrow> p \<in> {str ''aca_ad'', str ''fe_ad'', str ''custom_ad''}
       \<and> ((t = ACA_TEMPLATE \<and> b = ACA_BENEFITS \<and> p = str ''aca_ad'')
          \<or> (t = FE_TEMPLATE \<and> b = FE_BENEFITS \<and> p = str ''fe_ad'')
          \<or> ((\<exists>custom. t = strip custom) \<and> (\<exists>bullets. b = custom_benefit_list bullets)
              \<and> p = str ''custom_ad''))"
    by (elim conjE)
  with i have p: "str ''aca_ad'' \<in> {str ''aca_ad'', str ''fe_ad'', str ''custom_ad''}"
    by blast
  from demo_main_1_1_4 stripped_choices(1) f1 i p ga au show ?thesis
    by blast
qed

section \<open>Artifact paths\<close>




end
